theory Spec2Isabelle
  imports Complex_Main "HOL-Library.Sublist"
begin

section \<open>Python values used by the analyser\<close>

text \<open>
  A Python \<open>str\<close> is a sequence of Unicode code points, so it is modelled as a list of
  naturals: \<open>len\<close> is \<^const>\<open>length\<close>, and the comparison
  of a character with U+4E00 and U+9FFF is a comparison of code points. ASCII literals of the
  source are written with \<open>str\<close>; the Chinese literals are given by their code points.
\<close>

type_synonym pystr = "nat list"

definition str :: "string \<Rightarrow> pystr" where
  "str s = map of_char s"

text \<open>\<^verbatim>\<open>s.startswith(p)\<close>, \<^verbatim>\<open>s.endswith(p)\<close> and \<^verbatim>\<open>p in s\<close> on strings.\<close>

definition startswith :: "pystr \<Rightarrow> pystr \<Rightarrow> bool" where
  "startswith s p = (take (length p) s = p)"

definition endswith :: "pystr \<Rightarrow> pystr \<Rightarrow> bool" where
  "endswith s p = (length p \<le> length s \<and> drop (length s - length p) s = p)"

fun str_contains :: "pystr \<Rightarrow> pystr \<Rightarrow> bool" where
  "str_contains p [] = (p = [])"
| "str_contains p (c # cs) = (startswith (c # cs) p \<or> str_contains p cs)"

text \<open>
  \<^verbatim>\<open>text.count(sub)\<close>: the number of non-overlapping occurrences, found by scanning from
  the left; after a match the scan resumes behind it. For the empty pattern Python
  returns \<open>len(text) + 1\<close>.
\<close>

function str_count :: "pystr \<Rightarrow> pystr \<Rightarrow> nat" where
  "str_count p cs =
     (if p = [] then length cs + 1
      else if cs = [] then 0
      else if startswith cs p then 1 + str_count p (drop (length p) cs)
      else str_count p (tl cs))"
  by pat_completeness auto
termination
  by (relation "measure (\<lambda>(p, cs). length cs)") auto

declare str_count.simps [simp del]

text \<open>Decimal rendering of a non-negative integer, as \<^verbatim>\<open>str(n)\<close> and f-strings do.\<close>

function str_of_nat :: "nat \<Rightarrow> pystr" where
  "str_of_nat n = (if n < 10 then [48 + n] else str_of_nat (n div 10) @ [48 + n mod 10])"
  by pat_completeness auto
termination
  by (relation "measure id") auto

text \<open>
  The values stored in the result dictionaries. A dictionary with string keys is a map;
  \<^verbatim>\<open>d.get(k)\<close> is \<open>d k\<close>, and Python's truth test of \<^verbatim>\<open>d.get(k)\<close> is \<open>truthy\<close>.
\<close>

datatype pyval = PyNone | PyBool bool | PyStr pystr

type_synonym pydict = "string \<rightharpoonup> pyval"

fun truthy :: "pyval option \<Rightarrow> bool" where
  "truthy None = False"
| "truthy (Some PyNone) = False"
| "truthy (Some (PyBool b)) = b"
| "truthy (Some (PyStr s)) = (s \<noteq> [])"

datatype py_error = ZeroDivisionError | ValueError | KeyError | OverflowError


section \<open>Floating-point numbers\<close>

text \<open>
  Python's \<open>float\<close> is the IEEE 754 double. \<open>Fin m e\<close> is the number \<open>m * 2 ^ e\<close>; a double
  is such a number with \<open>\<bar>m\<bar> < 2 ^ 53\<close> and \<open>- 1074 \<le> e \<le> 971\<close>. \<open>Infinity\<close> is either
  infinity (the sign plays no part below) and \<open>NaN\<close> is not-a-number.
  \<open>bit_length\<close> is \<^verbatim>\<open>int.bit_length\<close>.
\<close>

datatype pyfloat = Fin int int | Infinity | NaN

function bit_length :: "nat \<Rightarrow> nat" where
  "bit_length n = (if n = 0 then 0 else Suc (bit_length (n div 2)))"
  by pat_completeness auto
termination
  by (relation "measure id") auto

declare bit_length.simps [simp del]

text \<open>The largest double, \<open>(2 ^ 53 - 1) * 2 ^ 971\<close>, and the test \<open>\<bar>m * 2 ^ e\<bar> > MAX_DOUBLE\<close>.\<close>

definition MAX_DOUBLE :: int where
  "MAX_DOUBLE = (2 ^ 53 - 1) * 2 ^ 971"

definition exceeds_max :: "int \<Rightarrow> int \<Rightarrow> bool" where
  "exceeds_max m e =
     (if 0 \<le> e then MAX_DOUBLE < \<bar>m\<bar> * 2 ^ nat e else MAX_DOUBLE * 2 ^ nat (- e) < \<bar>m\<bar>)"

definition finite_or_inf :: "int \<Rightarrow> int \<Rightarrow> pyfloat" where
  "finite_or_inf m e = (if exceeds_max m e then Infinity else Fin m e)"

text \<open>
  Rounding to the nearest double, ties to even, as every floating-point operation of the
  platform rounds its exact result: \<open>round_double n e\<close> is the double nearest to
  \<open>n * 2 ^ e\<close>. The \<open>s\<close> lowest bits of \<open>\<bar>n\<bar>\<close> are dropped, where \<open>s\<close> leaves 53 bits, or fewer
  where the result is below the normal range (the spacing there is \<open>2 ^ (- 1074)\<close>); the result
  is infinite when the rounded number is beyond the largest double.
\<close>

definition round_double :: "int \<Rightarrow> int \<Rightarrow> pyfloat" where
  "round_double n e =
     (let a = nat \<bar>n\<bar>;
          s = max (int (bit_length a) - 53) (- 1074 - e)
      in if s \<le> 0 then finite_or_inf n e
         else let q = a div 2 ^ nat s;
                  r = a mod 2 ^ nat s;
                  half = 2 ^ (nat s - 1);
                  q' = (if half < r \<or> (r = half \<and> odd q) then q + 1 else q)
              in finite_or_inf (sgn n * int q') (e + s))"

text \<open>
  The conversion of an \<open>int\<close> operand to \<open>float\<close> (it raises \<open>OverflowError\<close> for an int
  too large), the product of two floats (an overflow gives infinity, silently) and
  \<^verbatim>\<open>int(x)\<close> of a float, which truncates towards zero and raises \<open>OverflowError\<close> for an
  infinity and \<open>ValueError\<close> for a NaN.
\<close>

definition float_of_int :: "int \<Rightarrow> py_error + pyfloat" where
  "float_of_int n = (case round_double n 0 of Infinity \<Rightarrow> Inl OverflowError | x \<Rightarrow> Inr x)"

fun float_mul :: "pyfloat \<Rightarrow> pyfloat \<Rightarrow> pyfloat" where
  "float_mul (Fin a d) (Fin m e) = round_double (a * m) (d + e)"
| "float_mul NaN y = NaN"
| "float_mul x NaN = NaN"
| "float_mul Infinity (Fin m e) = (if m = 0 then NaN else Infinity)"
| "float_mul (Fin a d) Infinity = (if a = 0 then NaN else Infinity)"
| "float_mul Infinity Infinity = Infinity"

fun int_of_float :: "pyfloat \<Rightarrow> py_error + int" where
  "int_of_float (Fin m e) =
     Inr (if 0 \<le> e then m * 2 ^ nat e else sgn m * (\<bar>m\<bar> div 2 ^ nat (- e)))"
| "int_of_float Infinity = Inl OverflowError"
| "int_of_float NaN = Inl ValueError"

text \<open>\<^verbatim>\<open>n * x\<close> for an \<open>int\<close> \<open>n\<close> and a \<open>float\<close> \<open>x\<close>.\<close>

definition int_times_float :: "int \<Rightarrow> pyfloat \<Rightarrow> py_error + pyfloat" where
  "int_times_float n x =
     (case float_of_int n of Inl err \<Rightarrow> Inl err | Inr y \<Rightarrow> Inr (float_mul y x))"

text \<open>
  \<^verbatim>\<open>a / b\<close> for two ints is the correctly rounded quotient. It raises \<open>OverflowError\<close>
  when the quotient rounds beyond the largest double, that is from
  \<open>(2 ^ 54 - 1) * 2 ^ 970\<close>, half-way between the largest double and \<open>2 ^ 1024\<close>, upwards.
\<close>

definition true_div_overflows :: "int \<Rightarrow> int \<Rightarrow> bool" where
  "true_div_overflows a b = ((2 ^ 54 - 1) * 2 ^ 970 * \<bar>b\<bar> \<le> \<bar>a\<bar>)"


section \<open>Token counter (\<open>src/core/token_counter.py\<close>)\<close>

text \<open>
  \<^verbatim>\<open>TokenCounter.__init__\<close>. The two arguments default to \<open>None\<close>, and
  \<^verbatim>\<open>x or DEFAULT\<close> also replaces a zero. The default threshold \<open>0.7\<close> is the double
  \<open>3152519739159347 * 2 ^ (- 52)\<close>. The product
  \<^verbatim>\<open>self.model_max_tokens * self.compression_threshold\<close> is a floating-point
  multiplication, and \<^verbatim>\<open>int(...)\<close> of it may raise.
\<close>

record TokenCounter =
  model_max_tokens :: int
  compression_threshold :: pyfloat
  safe_max_tokens :: int

definition MODEL_MAX_TOKENS :: int where
  "MODEL_MAX_TOKENS = 128000"

definition DEFAULT_THRESHOLD :: pyfloat where
  "DEFAULT_THRESHOLD = Fin 3152519739159347 (- 52)"

definition int_or :: "int option \<Rightarrow> int \<Rightarrow> int" where
  "int_or a d = (case a of None \<Rightarrow> d | Some v \<Rightarrow> if v = 0 then d else v)"

definition float_or :: "pyfloat option \<Rightarrow> pyfloat \<Rightarrow> pyfloat" where
  "float_or a d =
     (case a of None \<Rightarrow> d | Some (Fin m e) \<Rightarrow> if m = 0 then d else Fin m e | Some v \<Rightarrow> v)"

definition TokenCounter_init :: "int option \<Rightarrow> pyfloat option \<Rightarrow> py_error + TokenCounter" where
  "TokenCounter_init mm ct =
     (let m = int_or mm MODEL_MAX_TOKENS;
          t = float_or ct DEFAULT_THRESHOLD
      in case int_times_float m t of
           Inl err \<Rightarrow> Inl err
         | Inr p \<Rightarrow>
             (case int_of_float p of
                Inl err \<Rightarrow> Inl err
              | Inr k \<Rightarrow> Inr \<lparr>model_max_tokens = m, compression_threshold = t,
                               safe_max_tokens = k\<rparr>))"

text \<open>
  \<^verbatim>\<open>TokenCounter.should_compact\<close>. When the answer is true the method computes a usage
  percentage for its log line, \<^verbatim>\<open>(total_tokens / self.model_max_tokens) * 100\<close>: the
  division raises \<open>ZeroDivisionError\<close> for a counter whose maximum is zero and
  \<open>OverflowError\<close> for a quotient beyond the float range.
\<close>

definition should_compact :: "TokenCounter \<Rightarrow> int \<Rightarrow> py_error + bool" where
  "should_compact tc total_tokens =
     (let should = (safe_max_tokens tc \<le> total_tokens)
      in if should
         then if model_max_tokens tc = 0 then Inl ZeroDivisionError
              else if true_div_overflows total_tokens (model_max_tokens tc) then Inl OverflowError
              else Inr True
         else Inr False)"

text \<open>
  \<^verbatim>\<open>TokenCounter.estimate_tokens\<close>. The weights 1.5, 0.4 and 0.25 are applied in exact
  arithmetic: \<open>int(c * 1.5 + e * 0.4)\<close> is \<open>(15 c + 4 e) div 10\<close> and
  \<open>int(c * 1.5 + e * 0.25)\<close> is \<open>(6 c + e) div 4\<close> for counts \<open>c\<close>, \<open>e\<close>.
\<close>

definition is_chinese :: "nat \<Rightarrow> bool" where
  "is_chinese c = (0x4e00 \<le> c \<and> c \<le> 0x9fff)"

definition chinese_count :: "pystr \<Rightarrow> nat" where
  "chinese_count text = length (filter is_chinese text)"

definition code_indicators :: "pystr list" where
  "code_indicators = map str [''def '', ''import '', ''print('', ''if '', ''for '', ''while '']"

definition code_density :: "pystr \<Rightarrow> nat" where
  "code_density text = sum_list (map (\<lambda>indicator. str_count indicator text) code_indicators)"

definition estimate_tokens :: "pystr \<Rightarrow> nat" where
  "estimate_tokens text =
     (if text = [] then 0
      else
        let chinese = chinese_count text;
            is_code_heavy = (5 < code_density text);
            total_chars = length text;
            english_chars = total_chars - chinese
        in if is_code_heavy then (15 * chinese + 4 * english_chars) div 10
           else (6 * chinese + english_chars) div 4)"


section \<open>Policy check and sandbox (\<open>src/core/sandbox_executor.py\<close>)\<close>

text \<open>
  The syntax tree that \<^verbatim>\<open>ast.parse\<close> returns. The check reads four kinds of node:
  \<open>Import\<close> with the names of its aliases, \<open>ImportFrom\<close> with its module (absent in
  \<^verbatim>\<open>from . import x\<close>), \<open>Call\<close> with its function expression and its arguments
  (positional arguments, then keyword nodes), and
  \<open>Attribute\<close> with its value and attribute name. \<open>Name\<close> is what the check looks for in
  the function position of a call. Every other node is \<open>Other\<close> with its child nodes
  (alias, context and operator nodes, which have no children and match no branch of the
  check, are left out).
\<close>

datatype node =
    Import "pystr list"
  | ImportFrom "pystr option"
  | Call node "node list"
  | Attribute node pystr
  | Name pystr
  | Other "node list"

fun iter_child_nodes :: "node \<Rightarrow> node list" where
  "iter_child_nodes (Import names) = []"
| "iter_child_nodes (ImportFrom modname) = []"
| "iter_child_nodes (Call func args) = func # args"
| "iter_child_nodes (Attribute val attr) = [val]"
| "iter_child_nodes (Name ident) = []"
| "iter_child_nodes (Other children) = children"

text \<open>The nodes of a tree, by structural recursion (what "the code contains" means).\<close>

fun nodes_of :: "node \<Rightarrow> node list" where
  "nodes_of (Import names) = [Import names]"
| "nodes_of (ImportFrom modname) = [ImportFrom modname]"
| "nodes_of (Call func args) = Call func args # nodes_of func @ concat (map nodes_of args)"
| "nodes_of (Attribute val attr) = Attribute val attr # nodes_of val"
| "nodes_of (Name ident) = [Name ident]"
| "nodes_of (Other children) = Other children # concat (map nodes_of children)"

text \<open>
  \<^verbatim>\<open>ast.walk\<close>: a queue initialised with the root; the first node is taken off, its
  children are put at the end, and the node is yielded (breadth first).
\<close>

function walk :: "node list \<Rightarrow> node list" where
  "walk [] = []"
| "walk (n # todo) = n # walk (todo @ iter_child_nodes n)"
  by pat_completeness auto
termination
proof (relation "measure (\<lambda>todo. sum_list (map (\<lambda>n. length (nodes_of n)) todo))")
  show "wf (measure (\<lambda>todo. sum_list (map (\<lambda>n. length (nodes_of n)) todo)))"
    by simp
next
  fix n :: node and todo :: "node list"
  have "sum_list (map (\<lambda>n. length (nodes_of n)) (iter_child_nodes n)) < length (nodes_of n)"
    by (cases n) (simp_all add: length_concat comp_def)
  then show "(todo @ iter_child_nodes n, n # todo)
      \<in> measure (\<lambda>todo. sum_list (map (\<lambda>n. length (nodes_of n)) todo))"
    by simp
qed

definition FORBIDDEN_BUILTINS :: "pystr list" where
  "FORBIDDEN_BUILTINS = map str
     [''eval'', ''exec'', ''compile'',
      ''__import__'', ''open'', ''input'',
      ''raw_input'', ''execfile'', ''file'',
      ''reload'', ''vars'', ''locals'', ''globals'',
      ''dir'', ''getattr'', ''setattr'', ''delattr'',
      ''hasattr'']"

definition FORBIDDEN_MODULES :: "pystr list" where
  "FORBIDDEN_MODULES = map str
     [''os'', ''sys'', ''subprocess'', ''shutil'',
      ''socket'', ''urllib'', ''requests'',
      ''pickle'', ''shelve'', ''marshal'',
      ''importlib'', ''__builtin__'', ''builtins'']"

text \<open>The prefixes of the three \<open>CodeSecurityError\<close> messages, each ending in \<open>": "\<close>.\<close>

definition msg_forbidden_module :: pystr where
  "msg_forbidden_module = [31105, 27490, 23548, 20837, 27169, 22359, 58, 32]"

definition msg_forbidden_function :: pystr where
  "msg_forbidden_function = [31105, 27490, 20351, 29992, 20989, 25968, 58, 32]"

definition msg_forbidden_attribute :: pystr where
  "msg_forbidden_attribute = [31105, 27490, 35775, 38382, 39764, 26415, 23646, 24615, 58, 32]"

text \<open>
  One pass of the loop body of \<^verbatim>\<open>_check_code_safety\<close> on one node: the message of the
  \<open>CodeSecurityError\<close> it raises, or \<open>None\<close>. The branches are an \<open>if/elif\<close> chain
  on the node's class.
\<close>

fun check_node :: "node \<Rightarrow> pystr option" where
  "check_node (Import names) =
     (case find (\<lambda>name. name \<in> set FORBIDDEN_MODULES) names of
        None \<Rightarrow> None
      | Some name \<Rightarrow> Some (msg_forbidden_module @ name))"
| "check_node (ImportFrom modname) =
     (case modname of
        None \<Rightarrow> None
      | Some m \<Rightarrow> if m \<in> set FORBIDDEN_MODULES then Some (msg_forbidden_module @ m) else None)"
| "check_node (Call func args) =
     (case func of
        Name func_name \<Rightarrow>
          if func_name \<in> set FORBIDDEN_BUILTINS then Some (msg_forbidden_function @ func_name)
          else None
      | _ \<Rightarrow> None)"
| "check_node (Attribute val attr) =
     (if startswith attr (str ''__'') \<and> endswith attr (str ''__'')
      then Some (msg_forbidden_attribute @ attr) else None)"
| "check_node (Name ident) = None"
| "check_node (Other children) = None"

fun first_violation :: "node list \<Rightarrow> pystr option" where
  "first_violation [] = None"
| "first_violation (n # ns) =
     (case check_node n of Some msg \<Rightarrow> Some msg | None \<Rightarrow> first_violation ns)"

text \<open>
  What the sandbox takes from the Python platform:
  \<^item> \<open>ast_parse\<close>: \<^verbatim>\<open>ast.parse(code)\<close>, \<open>None\<close> when it raises \<open>SyntaxError\<close>;
  \<^item> \<open>compile_code\<close>: \<^verbatim>\<open>compile(code, '<sandbox>', 'exec')\<close>, the text and the formatted
    traceback of the \<open>SyntaxError\<close> when it raises one;
  \<^item> \<open>has_SIGALRM\<close>: whether the signal module has \<open>SIGALRM\<close>;
  \<^item> \<open>exec_code\<close>: \<^verbatim>\<open>exec(code, self.globals_dict)\<close> under the armed alarm (if any), on
    the namespace, returning how the run ended and the namespace after it;
  \<^item> \<open>lower\<close>: \<^verbatim>\<open>str.lower\<close>;
  \<^item> \<open>elapsed\<close>: the wall-clock seconds that this call of \<open>exec\<close> takes. The code never
    reads it; it is there to state what happens when a run exceeds the timeout.
  Exceptions other than \<open>SyntaxError\<close> from the parser and the compiler, and exceptions
  that are not an \<open>Exception\<close> from the run, are outside the model.
\<close>

datatype exn =
    Alarm
  | Exn pystr bool pystr

text \<open>
  \<open>Alarm\<close> is the \<open>TimeoutError\<close> raised by \<open>timeout_handler\<close>; \<open>Exn name is_timeout text\<close>
  is any other exception, with \<^verbatim>\<open>type(e).__name__\<close>, whether it is an instance of
  \<open>TimeoutError\<close>, and \<^verbatim>\<open>str(e)\<close>. A run that fails carries the formatted traceback and
  the output captured so far.
\<close>

datatype run_outcome =
    Finished pystr pystr
  | Failed exn pystr pystr pystr

record 'g platform =
  ast_parse :: "pystr \<Rightarrow> node option"
  compile_code :: "pystr \<Rightarrow> (pystr \<times> pystr) option"
  has_SIGALRM :: bool
  exec_code :: "nat option \<Rightarrow> 'g \<Rightarrow> pystr \<Rightarrow> run_outcome \<times> 'g"
  lower :: "pystr \<Rightarrow> pystr"
  elapsed :: "nat option \<Rightarrow> 'g \<Rightarrow> pystr \<Rightarrow> nat"

text \<open>
  \<^verbatim>\<open>_check_code_safety\<close>: \<open>Some msg\<close> when it raises \<open>CodeSecurityError(msg)\<close>, \<open>None\<close>
  when it returns. A code string that does not parse is accepted here.
\<close>

definition check_code_safety :: "'g platform \<Rightarrow> pystr \<Rightarrow> pystr option" where
  "check_code_safety P code =
     (case ast_parse P code of
        None \<Rightarrow> None
      | Some tree \<Rightarrow> first_violation (walk [tree]))"

text \<open>
  The executor: its timeout in seconds, the flag for process isolation and the persistent
  namespace. \<open>exec_log\<close> is not a field of the class: it records, in order, every code
  string handed to \<open>exec\<close>, so that "the code is not executed" can be stated.
\<close>

record 'g SandboxExecutor =
  timeout :: nat
  use_process_isolation :: bool
  globals_dict :: 'g
  exec_log :: "pystr list"

text \<open>The two explanatory messages about \<open>__import__\<close>; they differ in their first words.\<close>

definition import_hint :: pystr where
  "import_hint = [
    20195, 30721, 20013,
    20351, 29992, 20102, 95, 95, 105, 109, 112, 111, 114, 116, 95, 95, 40, 41, 20989,
    25968, 65292, 36825, 22312, 23433, 20840, 27801, 31665, 20013, 26159, 34987, 31105,
    27490, 30340, 12290, 10, 35299, 20915, 26041, 26696, 65306, 19981, 35201, 20351,
    29992, 20219, 20309, 105, 109, 112, 111, 114, 116, 35821, 21477, 65292, 30452, 25509,
    20351, 29992, 39044, 21152, 36733, 30340, 21464, 37327, 65306, 10, 32, 32, 45, 32,
    112, 100, 32, 40, 112, 97, 110, 100, 97, 115, 41, 10, 32, 32, 45, 32, 110, 112, 32,
    40, 110, 117, 109, 112, 121, 41, 10, 32, 32, 45, 32, 112, 108, 116, 32, 40, 109, 97,
    116, 112, 108, 111, 116, 108, 105, 98, 46, 112, 121, 112, 108, 111, 116, 41, 10, 32,
    32, 45, 32, 115, 110, 115, 32, 40, 115, 101, 97, 98, 111, 114, 110, 41, 10, 32, 32,
    45, 32, 100, 97, 116, 101, 116, 105, 109, 101, 44, 32, 116, 105, 109, 101, 100, 101,
    108, 116, 97, 44, 32, 109, 97, 116, 104, 10, 25152, 26377, 36825, 20123, 21464, 37327,
    24050, 32463, 39044, 21152, 36733, 65292, 21487, 20197, 30452, 25509, 20351, 29992,
    12290]"

definition security_import_message :: pystr where
  "security_import_message =
     [20195, 30721, 23433, 20840, 26816, 26597, 22833, 36133, 58, 32] @ import_hint"

definition runtime_import_message :: pystr where
  "runtime_import_message = str ''__import__ not found: '' @ import_hint"

text \<open>The text of the \<open>TimeoutError\<close> that \<open>timeout_handler\<close> raises.\<close>

definition timeout_message :: "nat \<Rightarrow> pystr" where
  "timeout_message seconds =
     [20195, 30721, 25191, 34892, 36229, 26102, 65288] @ str_of_nat seconds @ [31186, 65289]"

text \<open>
  \<^verbatim>\<open>_execute_with_timeout\<close>. The alarm is armed only where \<open>SIGALRM\<close> exists and is
  cancelled on every path, so no pending alarm is part of the state after the call
  (installing the handler and arming the alarm are taken not to fail).
  \<open>outcome_dict\<close> is the dictionary returned by the \<open>try\<close> statement; its clauses are
  tried in the source's order: \<open>TimeoutError\<close> first, then \<open>Exception\<close>.
\<close>

definition outcome_dict :: "'g platform \<Rightarrow> nat \<Rightarrow> run_outcome \<Rightarrow> pydict" where
  "outcome_dict P seconds outcome =
     (case outcome of
        Finished out err \<Rightarrow>
          [''success'' \<mapsto> PyBool True, ''stdout'' \<mapsto> PyStr out, ''stderr'' \<mapsto> PyStr err]
      | Failed e trace out err \<Rightarrow>
          (case e of
             Alarm \<Rightarrow>
               [''success'' \<mapsto> PyBool False, ''error_type'' \<mapsto> PyStr (str ''TimeoutError''),
                ''error'' \<mapsto> PyStr (timeout_message seconds),
                ''traceback'' \<mapsto> PyStr trace,
                ''stdout'' \<mapsto> PyStr out, ''stderr'' \<mapsto> PyStr err]
           | Exn name is_timeout text \<Rightarrow>
               if is_timeout then
                 [''success'' \<mapsto> PyBool False, ''error_type'' \<mapsto> PyStr (str ''TimeoutError''),
                  ''error'' \<mapsto> PyStr text,
                  ''traceback'' \<mapsto> PyStr trace,
                  ''stdout'' \<mapsto> PyStr out, ''stderr'' \<mapsto> PyStr err]
               else
                 let friendly = (str_contains (str ''__import__'') (lower P text)
                                 \<or> str_contains (str ''__import__ not found'') text);
                     error_msg = (if friendly then runtime_import_message else text);
                     error_type = (if friendly then str ''ImportError'' else name)
                 in [''success'' \<mapsto> PyBool False, ''error_type'' \<mapsto> PyStr error_type,
                     ''error'' \<mapsto> PyStr error_msg,
                     ''error_message'' \<mapsto> PyStr error_msg,
                     ''traceback'' \<mapsto> PyStr trace,
                     ''stdout'' \<mapsto> PyStr out, ''stderr'' \<mapsto> PyStr err]))"

definition execute_with_timeout ::
  "'g platform \<Rightarrow> 'g SandboxExecutor \<Rightarrow> pystr \<Rightarrow> pydict \<times> 'g SandboxExecutor" where
  "execute_with_timeout P s code =
     (let alarm = (if has_SIGALRM P then Some (timeout s) else None);
          (outcome, g') = exec_code P alarm (globals_dict s) code
      in (outcome_dict P (timeout s) outcome,
          s\<lparr>globals_dict := g', exec_log := exec_log s @ [code]\<rparr>))"

text \<open>
  \<^verbatim>\<open>execute\<close>: the safety check, the syntax check, then the run. Both values of
  \<open>use_process_isolation\<close> take the same path.
\<close>

definition execute ::
  "'g platform \<Rightarrow> 'g SandboxExecutor \<Rightarrow> pystr \<Rightarrow> pydict \<times> 'g SandboxExecutor" where
  "execute P s code =
     (case check_code_safety P code of
        Some msg \<Rightarrow>
          (let error_msg = (if str_contains (str ''__import__'') (lower P msg)
                            then security_import_message else msg)
           in ([''success'' \<mapsto> PyBool False, ''error_type'' \<mapsto> PyStr (str ''SecurityError''),
                ''error'' \<mapsto> PyStr error_msg,
                ''error_message'' \<mapsto> PyStr error_msg,
                ''traceback'' \<mapsto> PyStr []], s))
      | None \<Rightarrow>
          (case compile_code P code of
             Some (text, trace) \<Rightarrow>
               ([''success'' \<mapsto> PyBool False, ''error_type'' \<mapsto> PyStr (str ''SyntaxError''),
                 ''error'' \<mapsto> PyStr text,
                 ''traceback'' \<mapsto> PyStr trace], s)
           | None \<Rightarrow>
               if use_process_isolation s then execute_with_timeout P s code
               else execute_with_timeout P s code))"


section \<open>Retry loop (\<open>src/core/workflow.py\<close>)\<close>

text \<open>
  \<^verbatim>\<open>_generate_and_execute_with_retry\<close> calls three collaborators: the generation service
  (\<open>llm.generate_code\<close>), the executor (\<open>executor.execute\<close>) and the deep analysis
  (\<open>async_error_analyzer.analyze_error_with_thinking\<close>). They are parameters of the model.
  Each takes the state of the world \<open>'w\<close> (the remote service, the sandbox namespace) and
  returns the state after the call. A generation or analysis that raises returns \<open>None\<close>.
  The question, the dataset description, the history and the plot path are the same in
  every call of one run; only the error feedback changes, so it is the one argument kept.

  The user interface (\<open>src/cli/interface.py\<close>) prints through the Rich console, and a call
  of it that raises inside the \<open>try\<close> block ends the pass in the handler. \<open>show_info\<close>,
  \<open>show_retry\<close> and \<open>show_executing\<close> print fixed texts and \<open>show_code\<close> prints the code as
  a \<open>Syntax\<close> object; they are taken to return. \<open>show_error\<close> formats the error type and
  the error text into a markup string, which Rich parses when it prints the panel:
  \<open>markup_error\<close> says whether Rich raises \<open>MarkupError\<close> on a markup string, as it does
  for a closing tag that matches no open tag.
\<close>

record feedback =
  fb_code :: pystr
  fb_error_type :: pyval
  fb_error_message :: pyval
  fb_traceback :: pyval

text \<open>
  The dictionary returned by the deep analysis, reduced to the two keys the loop reads:
  \<open>'success'\<close> (always a boolean there) and \<open>'code'\<close> (a string or \<open>None\<close>).
\<close>

record thinking_result =
  th_success :: bool
  th_code :: "pystr option"

record 'w services =
  generate_code :: "'w \<Rightarrow> feedback option \<Rightarrow> pystr option \<times> 'w"
  executor_execute :: "'w \<Rightarrow> pystr \<Rightarrow> pydict \<times> 'w"
  analyze_error_with_thinking :: "'w \<Rightarrow> feedback \<Rightarrow> thinking_result option \<times> 'w"
  markup_error :: "pystr \<Rightarrow> bool"

text \<open>\<^verbatim>\<open>d.get(k, default)\<close>.\<close>

definition dict_get :: "pydict \<Rightarrow> string \<Rightarrow> pyval \<Rightarrow> pyval" where
  "dict_get d k dflt = (case d k of None \<Rightarrow> dflt | Some v \<Rightarrow> v)"

text \<open>
  A value inside an f-string, and \<^verbatim>\<open>ui.show_error(error, error_type)\<close>, which prints a
  panel with the text \<^verbatim>\<open>f"[red][bold]{error_type}:[/bold] {error}[/red]"\<close>:
  \<open>show_error\<close> is true when the call raises.
\<close>

fun format_value :: "pyval \<Rightarrow> pystr" where
  "format_value (PyStr s) = s"
| "format_value PyNone = str ''None''"
| "format_value (PyBool b) = (if b then str ''True'' else str ''False'')"

definition show_error :: "'w services \<Rightarrow> pyval \<Rightarrow> pyval \<Rightarrow> bool" where
  "show_error sv error error_type =
     markup_error sv (str ''[red][bold]'' @ format_value error_type @ str '':[/bold] ''
                        @ format_value error @ str ''[/red]'')"

text \<open>
  The calls made, in order, each with the attempt index at which it is made: generation,
  execution of the generated code, deep analysis, execution of its candidate.
\<close>

datatype event =
    Generate int
  | Execute int pystr
  | DeepAnalysis int
  | DeepExecute int pystr

text \<open>The local variables of the loop, the world and the calls made so far.\<close>

record 'w retry_state =
  error_feedback :: "feedback option"
  last_code :: "pystr option"
  last_result :: "pydict option"
  world :: 'w
  events :: "event list"

type_synonym answer = "pystr option \<times> pydict option \<times> int"

text \<open>
  How one pass of the loop body ends: with a \<^verbatim>\<open>return\<close>, by reaching the end of the
  \<open>try\<close> block, or in the \<^verbatim>\<open>except Exception\<close> handler.
\<close>

datatype 'w attempt_end =
    Return answer "'w retry_state"
  | Next "'w retry_state"
  | Except "'w retry_state"

text \<open>
  The block under \<^verbatim>\<open>if attempt == 0\<close>. The candidate is executed when
  \<^verbatim>\<open>thinking_result.get('success') and thinking_result.get('code')\<close> is true, that is
  when the code is a non-empty string. Reading \<^verbatim>\<open>thinking_exec_result['success']\<close>
  raises \<open>KeyError\<close> when the key is missing. The error of a candidate that fails is
  displayed by \<open>show_error\<close>, inside the \<open>try\<close> block; \<open>thinking_failed\<close> is the default
  text of that call.
\<close>

definition thinking_failed :: pystr where
  "thinking_failed = str ''thinking'' @ [20462, 22797, 22833, 36133]"

definition deep_analysis :: "'w services \<Rightarrow> int \<Rightarrow> feedback \<Rightarrow> 'w retry_state \<Rightarrow> 'w attempt_end" where
  "deep_analysis sv attempt fb st =
     (case analyze_error_with_thinking sv (world st) fb of
        (None, w1) \<Rightarrow> Except (st\<lparr>world := w1, events := events st @ [DeepAnalysis attempt]\<rparr>)
      | (Some thinking, w1) \<Rightarrow>
          (let st1 = st\<lparr>world := w1, events := events st @ [DeepAnalysis attempt]\<rparr>
           in case th_code thinking of
                None \<Rightarrow> Next st1
              | Some candidate \<Rightarrow>
                  if th_success thinking \<and> candidate \<noteq> [] then
                    (case executor_execute sv w1 candidate of
                       (thinking_exec_result, w2) \<Rightarrow>
                         (let st2 = st1\<lparr>world := w2,
                                        events := events st1 @ [DeepExecute attempt candidate]\<rparr>
                          in case thinking_exec_result ''success'' of
                               None \<Rightarrow> Except st2
                             | Some v \<Rightarrow>
                                 if truthy (Some v)
                                 then Return (Some candidate, Some thinking_exec_result, attempt) st2
                                 else if show_error sv
                                           (dict_get thinking_exec_result ''error'' (PyStr thinking_failed))
                                           (dict_get thinking_exec_result ''error_type'' (PyStr (str ''Error'')))
                                 then Except st2
                                 else Next st2))
                  else Next st1))"

text \<open>
  The body of the \<open>for\<close> loop for one attempt. After a failed execution the error is
  displayed by \<open>show_error\<close> before the test \<^verbatim>\<open>if attempt == 0\<close>.
\<close>

definition attempt_body :: "'w services \<Rightarrow> int \<Rightarrow> 'w retry_state \<Rightarrow> 'w attempt_end" where
  "attempt_body sv attempt st =
     (case generate_code sv (world st) (error_feedback st) of
        (None, w1) \<Rightarrow> Except (st\<lparr>world := w1, events := events st @ [Generate attempt]\<rparr>)
      | (Some generated, w1) \<Rightarrow>
          (case executor_execute sv w1 generated of
             (result, w2) \<Rightarrow>
               (let st2 = st\<lparr>last_code := Some generated, last_result := Some result,
                              world := w2,
                              events := events st @ [Generate attempt, Execute attempt generated]\<rparr>
                in case result ''success'' of
                     None \<Rightarrow> Except st2
                   | Some v \<Rightarrow>
                       if truthy (Some v) then Return (Some generated, Some result, attempt) st2
                       else
                         (let fb = \<lparr>fb_code = generated,
                                    fb_error_type = dict_get result ''error_type'' (PyStr (str ''Unknown'')),
                                    fb_error_message =
                                      dict_get result ''error'' (PyStr (str ''Unknown error'')),
                                    fb_traceback = dict_get result ''traceback'' (PyStr [])\<rparr>;
                              st3 = st2\<lparr>error_feedback := Some fb\<rparr>
                          in if show_error sv
                                  (dict_get result ''error'' (PyStr (str ''Unknown error'')))
                                  (dict_get result ''error_type'' (PyStr (str ''Error'')))
                             then Except st3
                             else if attempt = 0 then deep_analysis sv attempt fb st3
                             else Next st3))))"

text \<open>The state in which a pass of the loop body ends.\<close>

fun end_state :: "'w attempt_end \<Rightarrow> 'w retry_state" where
  "end_state (Return r st) = st"
| "end_state (Next st) = st"
| "end_state (Except st) = st"

text \<open>
  The \<open>for\<close> loop over the remaining attempt indices. In the handler,
  \<^verbatim>\<open>attempt < self.max_retries - 1\<close> continues with the next index and anything else
  returns the last code and result with the current index. When the indices are used up
  the function returns them with \<open>max_retries\<close>. The texts of the exceptions are not part
  of the model, and the display of one by the handler before \<^verbatim>\<open>continue\<close>
  (\<^verbatim>\<open>self.ui.show_error(str(e), "Exception")\<close>) is taken to return: \<open>retry_loop\<close> gives
  the runs in which no exception leaves the function. The handler's other branch, taken
  at the last index, displays nothing.
\<close>

fun retry_loop :: "'w services \<Rightarrow> int \<Rightarrow> int list \<Rightarrow> 'w retry_state \<Rightarrow> answer \<times> 'w retry_state" where
  "retry_loop sv max_retries [] st = ((last_code st, last_result st, max_retries), st)"
| "retry_loop sv max_retries (attempt # rest) st =
     (case attempt_body sv attempt st of
        Return r st' \<Rightarrow> (r, st')
      | Next st' \<Rightarrow> retry_loop sv max_retries rest st'
      | Except st' \<Rightarrow>
          if attempt < max_retries - 1 then retry_loop sv max_retries rest st'
          else ((last_code st', last_result st', attempt), st'))"

definition initial_state :: "'w \<Rightarrow> 'w retry_state" where
  "initial_state w =
     \<lparr>error_feedback = None, last_code = None, last_result = None, world = w, events = []\<rparr>"

text \<open>\<^verbatim>\<open>range(self.max_retries)\<close> is \<open>0, \<dots>, max_retries - 1\<close>, empty for \<open>max_retries \<le> 0\<close>.\<close>

definition generate_and_execute_with_retry ::
  "'w services \<Rightarrow> int \<Rightarrow> 'w \<Rightarrow> answer \<times> 'w retry_state" where
  "generate_and_execute_with_retry sv max_retries w =
     retry_loop sv max_retries [0..max_retries - 1] (initial_state w)"


section \<open>Session history (\<open>src/core/session.py\<close>)\<close>

record ConversationTurn =
  turn_timestamp :: pystr
  turn_question :: pystr
  turn_code :: pystr
  turn_execution_result :: pydict
  turn_explanation :: pystr
  turn_retry_count :: int
  turn_plot_path :: "pystr option"

text \<open>
  An entry of the history list: a dictionary with the keys \<open>'question'\<close>, \<open>'code'\<close>,
  \<open>'result'\<close> and \<open>'explanation'\<close>, each of which may be missing (readers use
  \<^verbatim>\<open>turn.get(key, default)\<close>).
\<close>

record history_turn =
  h_question :: "pystr option"
  h_code :: "pystr option"
  h_result :: "pydict option"
  h_explanation :: "pystr option"

text \<open>The \<open>'result'\<close> entry that \<^verbatim>\<open>_turns_to_dicts\<close> builds under \<open>only_successful\<close>.\<close>

definition successful_part :: "pydict \<Rightarrow> pydict" where
  "successful_part execution_result =
     (if truthy (execution_result ''success'') then
        (let r = [''success'' \<mapsto> PyBool True,
                  ''stdout'' \<mapsto> dict_get execution_result ''stdout'' (PyStr [])]
         in if truthy (execution_result ''plot_saved'')
            then r(''plot_saved'' \<mapsto> PyBool True,
                   ''plot_path'' \<mapsto> dict_get execution_result ''plot_path'' PyNone)
            else r)
      else [''success'' \<mapsto> PyBool False])"

definition turn_to_dict :: "bool \<Rightarrow> ConversationTurn \<Rightarrow> history_turn" where
  "turn_to_dict only_successful turn =
     \<lparr>h_question = Some (turn_question turn),
      h_code = Some (turn_code turn),
      h_result = Some (if only_successful then successful_part (turn_execution_result turn)
                       else turn_execution_result turn),
      h_explanation = Some (turn_explanation turn)\<rparr>"

definition turns_to_dicts :: "ConversationTurn list \<Rightarrow> bool \<Rightarrow> history_turn list" where
  "turns_to_dicts turns only_successful = map (turn_to_dict only_successful) turns"


text \<open>A recorded turn whose execution failed with a \<open>KeyError\<close> after printing.\<close>

definition failed_turn :: ConversationTurn where
  "failed_turn =
     \<lparr>turn_timestamp = str ''2025-01-01T00:00:00'',
      turn_question = str ''q'',
      turn_code = str ''x = d[1]'',
      turn_execution_result =
        [''success'' \<mapsto> PyBool False, ''error_type'' \<mapsto> PyStr (str ''KeyError''),
         ''error'' \<mapsto> PyStr (str ''boom''), ''error_message'' \<mapsto> PyStr (str ''boom''),
         ''traceback'' \<mapsto> PyStr (str ''Traceback''),
         ''stdout'' \<mapsto> PyStr (str ''partial''), ''stderr'' \<mapsto> PyStr [],
         ''plot_saved'' \<mapsto> PyBool False],
      turn_explanation = str ''e'',
      turn_retry_count = 3,
      turn_plot_path = None\<rparr>"


section \<open>Context tokens (\<open>TokenCounter.calculate_context_tokens\<close>)\<close>

text \<open>
  \<open>estimate_tokens\<close> applied to a value read from a result dictionary: \<open>None\<close> and \<open>False\<close>
  are caught by \<^verbatim>\<open>if not text\<close>, \<open>True\<close> cannot be iterated.
\<close>

datatype type_error = TypeError

fun estimate_value :: "pyval \<Rightarrow> type_error + nat" where
  "estimate_value (PyStr s) = Inr (estimate_tokens s)"
| "estimate_value PyNone = Inr 0"
| "estimate_value (PyBool b) = (if b then Inl TypeError else Inr 0)"

definition str_or_empty :: "pystr option \<Rightarrow> pystr" where
  "str_or_empty v = (case v of None \<Rightarrow> [] | Some s \<Rightarrow> s)"

text \<open>What one turn of the history adds to \<open>tokens['history']\<close>.\<close>

definition turn_tokens :: "history_turn \<Rightarrow> type_error + nat" where
  "turn_tokens turn =
     (let q = estimate_tokens (str_or_empty (h_question turn));
          c = estimate_tokens (str_or_empty (h_code turn));
          result = (case h_result turn of None \<Rightarrow> Map.empty | Some r \<Rightarrow> r);
          e = estimate_tokens (str_or_empty (h_explanation turn))
      in if truthy (result ''success'') then
           (case estimate_value (dict_get result ''stdout'' (PyStr [])) of
              Inl err \<Rightarrow> Inl err
            | Inr out \<Rightarrow> Inr (q + c + out + e))
         else Inr (q + c + e))"

fun history_tokens :: "history_turn list \<Rightarrow> nat \<Rightarrow> type_error + nat" where
  "history_tokens [] acc = Inr acc"
| "history_tokens (turn # rest) acc =
     (case turn_tokens turn of
        Inl err \<Rightarrow> Inl err
      | Inr n \<Rightarrow> history_tokens rest (acc + n))"

record token_info =
  tokens_question :: int
  tokens_global_context :: int
  tokens_history :: int
  tokens_total :: int

text \<open>
  \<open>global_prompt\<close> is the prompt of the global context when that context is ready; it is
  read only when no \<open>global_context_tokens\<close> is passed.
\<close>

definition calculate_context_tokens ::
  "pystr option \<Rightarrow> pystr \<Rightarrow> history_turn list \<Rightarrow> int option \<Rightarrow> type_error + token_info" where
  "calculate_context_tokens global_prompt current_question history global_context_tokens =
     (let q = int (estimate_tokens current_question);
          g = (case global_context_tokens of
                 Some n \<Rightarrow> n
               | None \<Rightarrow> (case global_prompt of
                            Some ctx_prompt \<Rightarrow> int (estimate_tokens ctx_prompt)
                          | None \<Rightarrow> 0))
      in case history_tokens history 0 of
           Inl err \<Rightarrow> Inl err
         | Inr h \<Rightarrow> Inr \<lparr>tokens_question = q, tokens_global_context = g,
                          tokens_history = int h, tokens_total = q + g + int h\<rparr>)"


section \<open>History compactor (\<open>src/core/compactor.py\<close>)\<close>

text \<open>Python's slices \<^verbatim>\<open>xs[:j]\<close> and \<^verbatim>\<open>xs[i:]\<close>: a negative bound counts from the end.\<close>

definition slice_to :: "'a list \<Rightarrow> int \<Rightarrow> 'a list" where
  "slice_to xs j = take (nat (if j < 0 then int (length xs) + j else j)) xs"

definition slice_from :: "'a list \<Rightarrow> int \<Rightarrow> 'a list" where
  "slice_from xs i = drop (nat (if i < 0 then int (length xs) + i else i)) xs"

text \<open>The question of the summary turn.\<close>

definition summary_marker :: pystr where
  "summary_marker = [12304, 21382, 21490, 23545, 35805, 25688, 35201, 12305]"

text \<open>
  \<^verbatim>\<open>ConversationCompactor.compact\<close> with the object's \<open>keep_recent\<close>. The text of the
  summary, \<^verbatim>\<open>_create_summary(_extract_key_information(to_compress), custom_instruction)\<close>,
  is computed by \<open>summarise\<close>, a parameter.
\<close>

definition compact ::
  "(history_turn list \<Rightarrow> pystr option \<Rightarrow> pystr) \<Rightarrow> int \<Rightarrow> history_turn list \<Rightarrow> pystr option
     \<Rightarrow> history_turn list" where
  "compact summarise keep_recent history custom_instruction =
     (if int (length history) \<le> keep_recent then history
      else
        let to_compress = slice_to history (- keep_recent);
            to_keep = slice_from history (- keep_recent);
            summary = summarise to_compress custom_instruction
        in [\<lparr>h_question = Some summary_marker,
             h_code = Some [],
             h_result = Some [''success'' \<mapsto> PyBool True, ''stdout'' \<mapsto> PyStr []],
             h_explanation = Some summary\<rparr>] @ to_keep)"


section \<open>Concrete runs\<close>

text \<open>
  The platform on one code string: \<open>python_on src tree outcome seconds\<close> parses \<open>src\<close>
  to \<open>tree\<close>, compiles it without error and runs it with \<open>outcome\<close> in \<open>seconds\<close>; every
  other string is a syntax error. It has \<open>SIGALRM\<close>. \<open>ascii_lower\<close> is \<^verbatim>\<open>str.lower\<close> on texts whose cased characters are ASCII. The
  sources below are given with the tree \<^verbatim>\<open>ast.parse\<close> builds for them (module, statements,
  expressions) and with what running them in the sandbox namespace does: \<^verbatim>\<open>print(1)\<close>
  prints, \<^verbatim>\<open>import json\<close> fails in \<open>exec\<close> because the namespace has no \<open>__import__\<close>,
  \<^verbatim>\<open>raise ValueError()\<close> raises an exception whose text is empty.
\<close>

definition ascii_lower :: "pystr \<Rightarrow> pystr" where
  "ascii_lower s = map (\<lambda>c. if 65 \<le> c \<and> c \<le> 90 then c + 32 else c) s"

definition python_on :: "pystr \<Rightarrow> node \<Rightarrow> run_outcome \<Rightarrow> nat \<Rightarrow> unit platform" where
  "python_on src tree outcome seconds =
     \<lparr>ast_parse = (\<lambda>c. if c = src then Some tree else None),
      compile_code = (\<lambda>c. if c = src then None else Some (str ''invalid syntax'', [])),
      has_SIGALRM = True,
      exec_code = (\<lambda>alarm g c. (outcome, g)),
      lower = ascii_lower,
      elapsed = (\<lambda>alarm g c. seconds)\<rparr>"

definition fresh_executor :: "unit SandboxExecutor" where
  "fresh_executor = \<lparr>timeout = 30, use_process_isolation = False, globals_dict = (), exec_log = []\<rparr>"

definition dunder_source :: pystr where
  "dunder_source = str ''x.__class__''"

definition dunder_tree :: node where
  "dunder_tree = Other [Other [Attribute (Name (str ''x'')) (str ''__class__'')]]"

definition json_source :: pystr where
  "json_source = str ''print(1)'' @ [10] @ str ''import json''"

definition json_tree :: node where
  "json_tree = Other [Other [Call (Name (str ''print'')) [Other []]], Import [str ''json'']]"

definition json_outcome :: run_outcome where
  "json_outcome =
     Failed (Exn (str ''ImportError'') False (str ''__import__ not found''))
       (str ''Traceback (most recent call last)'') (str ''1'' @ [10]) []"

definition os_source :: pystr where
  "os_source = str ''import os''"

definition os_tree :: node where
  "os_tree = Other [Import [str ''os'']]"

definition raise_source :: pystr where
  "raise_source = str ''raise ValueError()''"

definition raise_tree :: node where
  "raise_tree = Other [Other [Call (Name (str ''ValueError'')) []]]"

definition raise_outcome :: run_outcome where
  "raise_outcome =
     Failed (Exn (str ''ValueError'') False []) (str ''Traceback (most recent call last)'') [] []"

definition print_source :: pystr where
  "print_source = str ''print(1)''"

definition print_tree :: node where
  "print_tree = Other [Other [Call (Name (str ''print'')) [Other []]]]"

definition print_outcome :: run_outcome where
  "print_outcome = Finished (str ''1'' @ [10]) []"


text \<open>
  The same platform where the signal module has no \<open>SIGALRM\<close> (not a Unix system). A sum
  over ten thousand million numbers that takes five minutes and ends normally; a loop
  that prints once and never ends, interrupted by the alarm.
\<close>

definition without_SIGALRM :: "unit platform \<Rightarrow> unit platform" where
  "without_SIGALRM P = P\<lparr>has_SIGALRM := False\<rparr>"

definition slow_source :: pystr where
  "slow_source = str ''n = sum(range(10 ** 10))''"

definition slow_tree :: node where
  "slow_tree =
     Other [Other [Name (str ''n''),
                   Call (Name (str ''sum'')) [Call (Name (str ''range'')) [Other [Other [], Other []]]]]]"

definition slow_outcome :: run_outcome where
  "slow_outcome = Finished [] []"

definition loop_source :: pystr where
  "loop_source = str ''print(1)'' @ [10] @ str ''while True: pass''"

definition loop_tree :: node where
  "loop_tree = Other [Other [Call (Name (str ''print'')) [Other []]], Other [Other [], Other []]]"

definition loop_outcome :: run_outcome where
  "loop_outcome = Failed Alarm (str ''Traceback (most recent call last)'') (str ''1'' @ [10]) []"

text \<open>
  Scripted collaborators of the retry loop. The world is the number of generation calls
  made so far: the \<open>n\<close>-th call of the generation service returns the \<open>n\<close>-th entry of the
  script (a code string, or \<open>None\<close> when the service raises, also once the script is used
  up); the executor answers by \<open>run\<close>; the deep analysis always returns \<open>thinking\<close>; the
  console prints every markup string.
  In \<open>demo_run\<close> the code \<^verbatim>\<open>print(len(df))\<close> succeeds and any other code fails with a
  \<open>NameError\<close>.
\<close>

definition scripted ::
  "pystr option list \<Rightarrow> (pystr \<Rightarrow> pydict) \<Rightarrow> thinking_result option \<Rightarrow> nat services" where
  "scripted script run thinking =
     \<lparr>generate_code = (\<lambda>w fb. (if w < length script then script ! w else None, Suc w)),
      executor_execute = (\<lambda>w c. (run c, w)),
      analyze_error_with_thinking = (\<lambda>w fb. (thinking, w)),
      markup_error = (\<lambda>markup. False)\<rparr>"

definition demo_run :: "pystr \<Rightarrow> pydict" where
  "demo_run c =
     (if c = str ''print(len(df))'' then
        [''success'' \<mapsto> PyBool True, ''stdout'' \<mapsto> PyStr (str ''5''), ''stderr'' \<mapsto> PyStr []]
      else
        [''success'' \<mapsto> PyBool False, ''error_type'' \<mapsto> PyStr (str ''NameError''),
         ''error'' \<mapsto> PyStr (str ''name is not defined''),
         ''error_message'' \<mapsto> PyStr (str ''name is not defined''),
         ''traceback'' \<mapsto> PyStr (str ''Traceback''),
         ''stdout'' \<mapsto> PyStr [], ''stderr'' \<mapsto> PyStr []])"

definition bad_code :: pystr where
  "bad_code = str ''print(total)''"

definition good_code :: pystr where
  "good_code = str ''print(len(df))''"

definition bad_feedback :: feedback where
  "bad_feedback =
     \<lparr>fb_code = bad_code, fb_error_type = PyStr (str ''NameError''),
      fb_error_message = PyStr (str ''name is not defined''),
      fb_traceback = PyStr (str ''Traceback'')\<rparr>"

definition thinking_with :: "pystr \<Rightarrow> thinking_result option" where
  "thinking_with candidate = Some \<lparr>th_success = True, th_code = Some candidate\<rparr>"









section \<open>Properties of the token counter\<close>

lemma int_or_nonzero: "d \<noteq> 0 \<Longrightarrow> int_or a d \<noteq> 0"
  by (simp add: int_or_def split: option.splits)

text \<open>A finite result of a rounding or of a product is at most the largest double.\<close>

lemma round_double_finite: "round_double n e = Fin m e' \<Longrightarrow> \<not> exceeds_max m e'"
  by (auto simp: round_double_def finite_or_inf_def Let_def split: if_splits)

lemma float_mul_finite:
  assumes "float_mul y x = Fin m e"
  shows "\<not> exceeds_max m e"
proof (cases y)
  case (Fin a d)
  show ?thesis
  proof (cases x)
    case (Fin b c)
    with \<open>y = Fin a d\<close> assms have "round_double (a * b) (d + c) = Fin m e" by simp
    then show ?thesis by (rule round_double_finite)
  next
    case Infinity
    with \<open>y = Fin a d\<close> assms show ?thesis by (simp split: if_splits)
  next
    case NaN
    with \<open>y = Fin a d\<close> assms show ?thesis by simp
  qed
next
  case Infinity
  with assms show ?thesis by (cases x) (simp_all split: if_splits)
next
  case NaN
  with assms show ?thesis by simp
qed

lemma int_of_float_bound:
  assumes "\<not> exceeds_max m e" and "int_of_float (Fin m e) = Inr k"
  shows "\<bar>k\<bar> \<le> MAX_DOUBLE"
proof (cases "0 \<le> e")
  case True
  with assms show ?thesis by (auto simp: exceeds_max_def abs_mult)
next
  case False
  with assms have le: "\<bar>m\<bar> \<le> MAX_DOUBLE * 2 ^ nat (- e)"
    and k: "k = sgn m * (\<bar>m\<bar> div 2 ^ nat (- e))"
    by (auto simp: exceeds_max_def)
  have pos: "(0::int) < 2 ^ nat (- e)" by simp
  have "\<bar>m\<bar> div 2 ^ nat (- e) \<le> (MAX_DOUBLE * 2 ^ nat (- e)) div 2 ^ nat (- e)"
    using le pos by (rule zdiv_mono1)
  then have d: "\<bar>m\<bar> div 2 ^ nat (- e) \<le> MAX_DOUBLE" by simp
  have nn: "0 \<le> \<bar>m\<bar> div 2 ^ nat (- e)" by (simp add: pos_imp_zdiv_nonneg_iff)
  have "\<bar>k\<bar> = \<bar>sgn m\<bar> * (\<bar>m\<bar> div 2 ^ nat (- e))" using k nn by (simp add: abs_mult)
  also have "\<dots> \<le> \<bar>m\<bar> div 2 ^ nat (- e)" using nn by (cases "m = 0") (simp_all add: abs_sgn_eq)
  finally show ?thesis using d by linarith
qed

lemma max_double_below_overflow:
  assumes b: "b \<noteq> 0" and k: "\<bar>k\<bar> \<le> MAX_DOUBLE"
  shows "\<not> true_div_overflows k b"
proof -
  have one: "1 \<le> \<bar>b\<bar>" using b by simp
  have "MAX_DOUBLE < (2 ^ 54 - 1) * 2 ^ 970" by (simp add: MAX_DOUBLE_def)
  also have "\<dots> = (2 ^ 54 - 1) * 2 ^ 970 * (1::int)" by simp
  also have "\<dots> \<le> (2 ^ 54 - 1) * 2 ^ 970 * \<bar>b\<bar>"
    using one by (intro mult_left_mono) simp_all
  finally show ?thesis using k by (simp add: true_div_overflows_def)
qed

text \<open>
  C6 (as amended). For a counter built by \<open>__init__\<close>, \<open>safe_max_tokens\<close> is \<^verbatim>\<open>int\<close> of the
  floating-point product of \<open>model_max_tokens\<close> and the threshold (the product rounded
  to a double, then truncated). For every total whose quotient by \<open>model_max_tokens\<close> is
  within the float range, \<open>should_compact\<close> returns true exactly when the total is at
  least \<open>safe_max_tokens\<close>; the total equal to \<open>safe_max_tokens\<close> returns true.
\<close>

theorem should_compact_iff_ceiling:
  assumes init: "TokenCounter_init mm ct = Inr tc"
    and fits: "\<not> true_div_overflows tot (model_max_tokens tc)"
  shows "should_compact tc tot = Inr (safe_max_tokens tc \<le> tot)
       \<and> should_compact tc (safe_max_tokens tc) = Inr True
       \<and> (\<exists>p. int_times_float (model_max_tokens tc) (compression_threshold tc) = Inr p
              \<and> int_of_float p = Inr (safe_max_tokens tc))"
proof -
  let ?m = "int_or mm MODEL_MAX_TOKENS" and ?t = "float_or ct DEFAULT_THRESHOLD"
  from init obtain p k where p: "int_times_float ?m ?t = Inr p" and k: "int_of_float p = Inr k"
    and tc: "tc = \<lparr>model_max_tokens = ?m, compression_threshold = ?t, safe_max_tokens = k\<rparr>"
    by (auto simp: TokenCounter_init_def Let_def split: sum.splits)
  have m: "model_max_tokens tc \<noteq> 0"
    using tc by (simp add: int_or_nonzero MODEL_MAX_TOKENS_def)
  from p obtain y where mul: "p = float_mul y ?t"
    by (auto simp: int_times_float_def split: sum.splits)
  from k obtain pm pe where fin: "p = Fin pm pe" by (cases p) simp_all
  have "\<not> exceeds_max pm pe" using mul fin float_mul_finite [of y ?t pm pe] by simp
  then have "\<bar>k\<bar> \<le> MAX_DOUBLE" using k fin by (simp add: int_of_float_bound)
  then have safe_fits: "\<not> true_div_overflows (safe_max_tokens tc) (model_max_tokens tc)"
    using m tc by (simp add: max_double_below_overflow)
  have "should_compact tc tot = Inr (safe_max_tokens tc \<le> tot)"
    using m fits by (simp add: should_compact_def Let_def)
  moreover have "should_compact tc (safe_max_tokens tc) = Inr True"
    using m safe_fits by (simp add: should_compact_def Let_def)
  moreover have "int_times_float (model_max_tokens tc) (compression_threshold tc) = Inr p
      \<and> int_of_float p = Inr (safe_max_tokens tc)"
    using p k tc by simp
  ultimately show ?thesis by blast
qed

lemmas float_eval = TokenCounter_init_def int_times_float_def float_of_int_def round_double_def
  finite_or_inf_def exceeds_max_def MAX_DOUBLE_def bit_length.simps int_or_def float_or_def
  MODEL_MAX_TOKENS_def DEFAULT_THRESHOLD_def Let_def

text \<open>
  The default counter: \<open>128000 * 0.7\<close> is \<open>403522526612396416000 * 2 ^ (- 52)\<close> exactly, a
  little below \<open>89600\<close>, and rounds to the double \<open>89600.0\<close>. The counter for a maximum of
  \<open>90\<close>: \<open>90 * 0.7\<close> is \<open>283726776524341230 * 2 ^ (- 52)\<close> exactly and rounds to
  \<open>8866461766385663 * 2 ^ (- 47)\<close>, the double \<open>62.99999999999999\<close>.
\<close>

lemma default_counter:
  "TokenCounter_init None None
     = Inr \<lparr>model_max_tokens = 128000, compression_threshold = Fin 3152519739159347 (- 52),
            safe_max_tokens = 89600\<rparr>"
  by (simp add: float_eval)

lemma counter_90:
  "TokenCounter_init (Some 90) None
     = Inr \<lparr>model_max_tokens = 90, compression_threshold = Fin 3152519739159347 (- 52),
            safe_max_tokens = 62\<rparr>"
  by (simp add: float_eval)

text \<open>
  C6 as stated fails, whichever number the threshold ratio is taken to be. With the
  decimal \<open>0.7\<close>: the counter for a maximum of \<open>90\<close> has the safe ceiling \<open>62\<close> and
  \<open>should_compact(62)\<close> is true, where the floor of \<open>90 \<times> 0.7\<close> is \<open>63\<close>. With the double that
  \<open>0.7\<close> denotes: the default counter has the safe ceiling \<open>89600\<close> and
  \<open>should_compact(89599)\<close> is false, where the floor of the exact product is \<open>89599\<close>.
\<close>

theorem safe_ceiling_is_not_floor_of_product:
  "TokenCounter_init (Some 90) None
     = Inr \<lparr>model_max_tokens = 90, compression_threshold = Fin 3152519739159347 (- 52),
            safe_max_tokens = 62\<rparr>
   \<and> should_compact \<lparr>model_max_tokens = 90, compression_threshold = Fin 3152519739159347 (- 52),
                       safe_max_tokens = 62\<rparr> 62 = Inr True
   \<and> \<lfloor>90 * (7 / 10 :: real)\<rfloor> = 63
   \<and> TokenCounter_init None None
     = Inr \<lparr>model_max_tokens = 128000, compression_threshold = Fin 3152519739159347 (- 52),
            safe_max_tokens = 89600\<rparr>
   \<and> should_compact \<lparr>model_max_tokens = 128000,
                       compression_threshold = Fin 3152519739159347 (- 52),
                       safe_max_tokens = 89600\<rparr> 89599 = Inr False
   \<and> \<lfloor>128000 * (3152519739159347 / 2 ^ 52 :: real)\<rfloor> = 89599"
proof -
  have "should_compact \<lparr>model_max_tokens = 90, compression_threshold = Fin 3152519739159347 (- 52),
                       safe_max_tokens = 62\<rparr> 62 = Inr True"
    by (simp add: should_compact_def true_div_overflows_def)
  moreover have "\<lfloor>90 * (7 / 10 :: real)\<rfloor> = 63" by simp
  moreover have "should_compact \<lparr>model_max_tokens = 128000,
                       compression_threshold = Fin 3152519739159347 (- 52),
                       safe_max_tokens = 89600\<rparr> 89599 = Inr False"
    by (simp add: should_compact_def)
  moreover have "\<lfloor>128000 * (3152519739159347 / 2 ^ 52 :: real)\<rfloor> = 89599"
    by (simp add: floor_eq_iff)
  ultimately show ?thesis using default_counter counter_90 by simp
qed

theorem should_compact_iff_ceiling_witness:
  "TokenCounter_init None None
     = Inr \<lparr>model_max_tokens = 128000, compression_threshold = Fin 3152519739159347 (- 52),
            safe_max_tokens = 89600\<rparr>
   \<and> \<not> true_div_overflows 89599 128000
   \<and> should_compact \<lparr>model_max_tokens = 128000,
                       compression_threshold = Fin 3152519739159347 (- 52),
                       safe_max_tokens = 89600\<rparr> 89599 = Inr False
   \<and> should_compact \<lparr>model_max_tokens = 128000,
                       compression_threshold = Fin 3152519739159347 (- 52),
                       safe_max_tokens = 89600\<rparr> 89600 = Inr True"
proof -
  have fits: "\<not> true_div_overflows 89599
      (model_max_tokens \<lparr>model_max_tokens = 128000,
         compression_threshold = Fin 3152519739159347 (- 52), safe_max_tokens = 89600\<rparr>)"
    by (simp add: true_div_overflows_def)
  from should_compact_iff_ceiling [OF default_counter fits]
  show ?thesis using default_counter fits by simp
qed


section \<open>Properties of the token estimate\<close>

lemma str_count_Nil: "p \<noteq> [] \<Longrightarrow> str_count p [] = 0"
  by (simp add: str_count.simps [of p "[]"])

lemma str_count_match:
  "p \<noteq> [] \<Longrightarrow> cs \<noteq> [] \<Longrightarrow> startswith cs p
     \<Longrightarrow> str_count p cs = 1 + str_count p (drop (length p) cs)"
  by (simp add: str_count.simps [of p cs])

lemma str_count_skip:
  "p \<noteq> [] \<Longrightarrow> cs \<noteq> [] \<Longrightarrow> \<not> startswith cs p \<Longrightarrow> str_count p cs = str_count p (tl cs)"
  by (simp add: str_count.simps [of p cs])

lemma str_count_empty_pattern: "str_count [] cs = length cs + 1"
  by (simp add: str_count.simps [of "[]" cs])

lemma startswith_length: "startswith cs p \<Longrightarrow> length p \<le> length cs"
proof -
  assume "startswith cs p"
  then have "length (take (length p) cs) = length p" by (simp add: startswith_def)
  then show ?thesis by simp
qed

lemma str_count_short: "p \<noteq> [] \<Longrightarrow> length cs < length p \<Longrightarrow> str_count p cs = 0"
proof (induction cs)
  case Nil
  then show ?case by (simp add: str_count_Nil)
next
  case (Cons c cs)
  have ns: "\<not> startswith (c # cs) p"
  proof
    assume "startswith (c # cs) p"
    then have "length p \<le> length (c # cs)" by (rule startswith_length)
    with Cons.prems(2) show False by simp
  qed
  have "str_count p (c # cs) = str_count p (tl (c # cs))"
    using Cons.prems(1) ns by (intro str_count_skip) simp_all
  also have "\<dots> = 0" using Cons by simp
  finally show ?case .
qed

lemma str_count_append: "str_count p cs \<le> str_count p (cs @ s)"
proof (induction p cs rule: str_count.induct)
  case (1 p cs)
  show ?case
  proof (cases "p = []")
    case True
    then show ?thesis by (simp add: str_count_empty_pattern)
  next
    case pne: False
    show ?thesis
    proof (cases "cs = []")
      case True
      with pne show ?thesis by (simp add: str_count_Nil)
    next
      case cne: False
      show ?thesis
      proof (cases "startswith cs p")
        case True
        then have len: "length p \<le> length cs" by (rule startswith_length)
        with True have sw: "startswith (cs @ s) p" by (simp add: startswith_def)
        have ih: "str_count p (drop (length p) cs) \<le> str_count p (drop (length p) cs @ s)"
          using "1.IH"(1)[OF pne cne True] .
        have dr: "drop (length p) (cs @ s) = drop (length p) cs @ s" using len by simp
        have "str_count p cs = 1 + str_count p (drop (length p) cs)"
          using pne cne True by (rule str_count_match)
        moreover have "str_count p (cs @ s) = 1 + str_count p (drop (length p) (cs @ s))"
          using pne cne sw by (intro str_count_match) simp_all
        ultimately show ?thesis using ih dr by simp
      next
        case nsw: False
        have ih: "str_count p (tl cs) \<le> str_count p (tl cs @ s)"
          using "1.IH"(2)[OF pne cne nsw] .
        have lhs: "str_count p cs = str_count p (tl cs)"
          using pne cne nsw by (rule str_count_skip)
        show ?thesis
        proof (cases "startswith (cs @ s) p")
          case True
          have "length cs < length p"
          proof (rule ccontr)
            assume "\<not> length cs < length p"
            then have "take (length p) (cs @ s) = take (length p) cs" by simp
            with True nsw show False by (simp add: startswith_def)
          qed
          then have "str_count p cs = 0" using pne by (intro str_count_short)
          then show ?thesis by simp
        next
          case False
          have "str_count p (cs @ s) = str_count p (tl (cs @ s))"
            using pne cne False by (intro str_count_skip) simp_all
          also have "tl (cs @ s) = tl cs @ s" using cne by simp
          finally show ?thesis using lhs ih by simp
        qed
      qed
    qed
  qed
qed

lemma code_density_append: "code_density t \<le> code_density (t @ s)"
  unfolding code_density_def
  by (rule sum_list_mono) (simp add: str_count_append)

lemma chinese_count_append: "chinese_count (t @ s) = chinese_count t + chinese_count s"
  by (simp add: chinese_count_def)

lemma chinese_count_le: "chinese_count t \<le> length t"
  by (simp add: chinese_count_def)

lemma weight_le: "(6 * c + e) div 4 \<le> (15 * c + 4 * e) div (10::nat)"
proof -
  define q where "q = (6 * c + e) div 4"
  have "4 * q \<le> 6 * c + e" unfolding q_def by simp
  then have "q * 10 \<le> 15 * c + 4 * e" by linarith
  then have "q \<le> (15 * c + 4 * e) div 10" by (simp add: less_eq_div_iff_mult_less_eq)
  then show ?thesis unfolding q_def .
qed

text \<open>
  C9. The estimate never decreases when a text is extended: for every text \<open>t\<close> and every
  continuation \<open>s\<close> (of any composition, so also one that keeps the proportion of wide
  and other characters), the estimate of \<open>t @ s\<close> is at least the estimate of \<open>t\<close>.
\<close>

theorem estimate_tokens_monotone: "estimate_tokens t \<le> estimate_tokens (t @ s)"
proof (cases "t = []")
  case True
  then show ?thesis by (simp add: estimate_tokens_def)
next
  case False
  let ?c = "chinese_count t" and ?c' = "chinese_count (t @ s)"
  let ?e = "length t - ?c" and ?e' = "length (t @ s) - ?c'"
  have c: "?c \<le> ?c'" by (simp add: chinese_count_append)
  have e: "?e \<le> ?e'"
    using chinese_count_le[of t] chinese_count_le[of s] by (simp add: chinese_count_append)
  have d: "code_density t \<le> code_density (t @ s)" by (rule code_density_append)
  have hh: "(15 * ?c + 4 * ?e) div 10 \<le> (15 * ?c' + 4 * ?e') div 10"
    using c e by (intro div_le_mono) linarith
  have ll: "(6 * ?c + ?e) div 4 \<le> (6 * ?c' + ?e') div 4"
    using c e by (intro div_le_mono) linarith
  have "(6 * ?c + ?e) div 4 \<le> (15 * ?c + 4 * ?e) div 10" by (rule weight_le)
  with hh have lh: "(6 * ?c + ?e) div 4 \<le> (15 * ?c' + 4 * ?e') div 10" by linarith
  show ?thesis
  proof (cases "5 < code_density t")
    case True
    with d have "5 < code_density (t @ s)" by linarith
    with True False hh show ?thesis by (simp add: estimate_tokens_def Let_def)
  next
    case low: False
    show ?thesis
    proof (cases "5 < code_density (t @ s)")
      case True
      with low False lh show ?thesis by (simp add: estimate_tokens_def Let_def)
    next
      case False
      with low \<open>t \<noteq> []\<close> ll show ?thesis by (simp add: estimate_tokens_def Let_def)
    qed
  qed
qed


section \<open>Properties of the session history\<close>

text \<open>
  C10. In the history built with \<open>only_successful\<close>, a turn whose execution failed has the
  result \<open>{'success': False}\<close> and nothing else (no error kind, message, traceback or
  stdout), and its contribution to the history tokens is the estimate of its question,
  code and explanation only. In general a history turn whose result is not successful
  adds no stdout tokens, whatever its result dictionary holds.
\<close>

theorem failed_turns_hide_details:
  assumes i: "i < length turns"
    and failed: "\<not> truthy (turn_execution_result (turns ! i) ''success'')"
  shows "h_result (turns_to_dicts turns True ! i) = Some [''success'' \<mapsto> PyBool False]
       \<and> turn_tokens (turns_to_dicts turns True ! i)
           = Inr (estimate_tokens (turn_question (turns ! i))
                  + estimate_tokens (turn_code (turns ! i))
                  + estimate_tokens (turn_explanation (turns ! i)))
       \<and> (\<forall>d r. \<not> truthy (r ''success'')
            \<longrightarrow> turn_tokens (d\<lparr>h_result := Some r\<rparr>)
                = Inr (estimate_tokens (str_or_empty (h_question d))
                       + estimate_tokens (str_or_empty (h_code d))
                       + estimate_tokens (str_or_empty (h_explanation d))))"
proof -
  have d: "turns_to_dicts turns True ! i = turn_to_dict True (turns ! i)"
    using i by (simp add: turns_to_dicts_def)
  have r: "h_result (turn_to_dict True (turns ! i)) = Some [''success'' \<mapsto> PyBool False]"
    using failed by (simp add: turn_to_dict_def successful_part_def)
  have t: "turn_tokens (turn_to_dict True (turns ! i))
      = Inr (estimate_tokens (turn_question (turns ! i))
                  + estimate_tokens (turn_code (turns ! i))
                  + estimate_tokens (turn_explanation (turns ! i)))"
    using failed by (simp add: turn_tokens_def turn_to_dict_def successful_part_def str_or_empty_def)
  have g: "\<forall>d r. \<not> truthy (r ''success'')
            \<longrightarrow> turn_tokens (d\<lparr>h_result := Some r\<rparr>)
                = Inr (estimate_tokens (str_or_empty (h_question d))
                       + estimate_tokens (str_or_empty (h_code d))
                       + estimate_tokens (str_or_empty (h_explanation d)))"
    by (simp add: turn_tokens_def)
  from d r t g show ?thesis by simp
qed

theorem failed_turns_hide_details_witness:
  "(0::nat) < length [failed_turn]
   \<and> \<not> truthy (turn_execution_result ([failed_turn] ! 0) ''success'')
   \<and> turn_execution_result failed_turn ''error'' = Some (PyStr (str ''boom''))
   \<and> h_result (turns_to_dicts [failed_turn] True ! 0) = Some [''success'' \<mapsto> PyBool False]
   \<and> \<not> truthy ([''success'' \<mapsto> PyBool False, ''stdout'' \<mapsto> PyStr (str ''partial'')] ''success'')
   \<and> turn_tokens (turn_to_dict True failed_turn
                    \<lparr>h_result := Some [''success'' \<mapsto> PyBool False,
                                        ''stdout'' \<mapsto> PyStr (str ''partial'')]\<rparr>)
       = Inr (estimate_tokens (str ''q'') + estimate_tokens (str ''x = d[1]'')
              + estimate_tokens (str ''e''))"
proof -
  have i: "(0::nat) < length [failed_turn]" by simp
  have f: "\<not> truthy (turn_execution_result ([failed_turn] ! 0) ''success'')"
    by (simp add: failed_turn_def)
  have e: "turn_execution_result failed_turn ''error'' = Some (PyStr (str ''boom''))"
    by (simp add: failed_turn_def)
  have n: "\<not> truthy ([''success'' \<mapsto> PyBool False, ''stdout'' \<mapsto> PyStr (str ''partial'')] ''success'')"
    by simp
  note main = failed_turns_hide_details [OF i f]
  from main have 1: "h_result (turns_to_dicts [failed_turn] True ! 0) = Some [''success'' \<mapsto> PyBool False]"
    by blast
  from main n have "turn_tokens (turn_to_dict True failed_turn
                    \<lparr>h_result := Some [''success'' \<mapsto> PyBool False,
                                        ''stdout'' \<mapsto> PyStr (str ''partial'')]\<rparr>)
       = Inr (estimate_tokens (str_or_empty (h_question (turn_to_dict True failed_turn)))
              + estimate_tokens (str_or_empty (h_code (turn_to_dict True failed_turn)))
              + estimate_tokens (str_or_empty (h_explanation (turn_to_dict True failed_turn))))"
    by blast
  then have 2: "turn_tokens (turn_to_dict True failed_turn
                    \<lparr>h_result := Some [''success'' \<mapsto> PyBool False,
                                        ''stdout'' \<mapsto> PyStr (str ''partial'')]\<rparr>)
       = Inr (estimate_tokens (str ''q'') + estimate_tokens (str ''x = d[1]'')
              + estimate_tokens (str ''e''))"
    by (simp add: turn_to_dict_def str_or_empty_def failed_turn_def)
  from i f e 1 n 2 show ?thesis by blast
qed


section \<open>Properties of the compactor\<close>

lemma compact_unchanged:
  "int (length history) \<le> k \<Longrightarrow> compact summarise k history ci = history"
  by (simp add: compact_def)

lemma compact_keeps_recent:
  assumes "0 < k" "k < int (length history)"
  shows "compact summarise k history ci
    = \<lparr>h_question = Some summary_marker, h_code = Some [],
       h_result = Some [''success'' \<mapsto> PyBool True, ''stdout'' \<mapsto> PyStr []],
       h_explanation = Some (summarise (take (length history - nat k) history) ci)\<rparr>
      # drop (length history - nat k) history"
  using assms
  by (simp add: compact_def slice_to_def slice_from_def Let_def nat_diff_distrib' nat_add_distrib)

text \<open>
  C5. With \<open>keep_recent = 0\<close> and a non-empty history, \<open>history[-0:]\<close> is the whole
  history and \<open>history[:-0]\<close> is empty: \<open>compact\<close> returns the summary of nothing followed by
  every turn, not by the last \<open>0\<close> turns. (For \<open>0 < keep_recent\<close> the result is as claimed,
  see \<open>compact_unchanged\<close> and \<open>compact_keeps_recent\<close>.)
\<close>

theorem compact_keep_zero_keeps_all:
  "compact summarise 0 (t # ts) ci
    = \<lparr>h_question = Some summary_marker, h_code = Some [],
       h_result = Some [''success'' \<mapsto> PyBool True, ''stdout'' \<mapsto> PyStr []],
       h_explanation = Some (summarise [] ci)\<rparr> # t # ts"
  by (simp add: compact_def slice_to_def slice_from_def)


section \<open>Properties of the policy check and the sandbox\<close>

lemma nodes_of_children:
  "set (nodes_of n) = insert n (\<Union>c\<in>set (iter_child_nodes n). set (nodes_of c))"
  by (cases n) auto

lemma set_walk: "set (walk todo) = (\<Union>n\<in>set todo. set (nodes_of n))"
proof (induction todo rule: walk.induct)
  case 1
  show ?case by simp
next
  case (2 n todo)
  have "set (walk (n # todo)) = insert n (set (walk (todo @ iter_child_nodes n)))" by simp
  also have "\<dots> = insert n ((\<Union>m\<in>set todo. set (nodes_of m))
                          \<union> (\<Union>c\<in>set (iter_child_nodes n). set (nodes_of c)))"
    using "2.IH" by simp
  also have "\<dots> = (\<Union>m\<in>set (n # todo). set (nodes_of m))"
    using nodes_of_children [of n] by auto
  finally show ?case .
qed

lemma first_violation_exists:
  "n \<in> set ns \<Longrightarrow> check_node n \<noteq> None \<Longrightarrow> first_violation ns \<noteq> None"
  by (induction ns) (auto split: option.splits)

lemma check_rejects_node:
  assumes "ast_parse P code = Some tree" and "n \<in> set (nodes_of tree)" and "check_node n \<noteq> None"
  shows "check_code_safety P code \<noteq> None"
proof -
  have "n \<in> set (walk [tree])" unfolding set_walk using assms(2) by simp
  then have "first_violation (walk [tree]) \<noteq> None" using assms(3) by (rule first_violation_exists)
  with assms(1) show ?thesis by (simp add: check_code_safety_def)
qed

lemma execute_rejected:
  assumes "check_code_safety P code \<noteq> None"
  shows "fst (execute P s code) ''success'' = Some (PyBool False)
       \<and> fst (execute P s code) ''error_type'' = Some (PyStr (str ''SecurityError''))
       \<and> snd (execute P s code) = s"
  using assms by (auto simp: execute_def Let_def)

text \<open>
  C8. If the code parses and its tree contains an attribute access whose name starts and
  ends with two underscores, the safety check raises a violation, whatever else the code
  contains; \<open>execute\<close> then reports a \<open>SecurityError\<close> and leaves the executor as it was
  (nothing is handed to \<open>exec\<close>).
\<close>

theorem dunder_attribute_rejected:
  assumes "ast_parse P code = Some tree"
    and "Attribute v attr \<in> set (nodes_of tree)"
    and "startswith attr (str ''__'')" and "endswith attr (str ''__'')"
  shows "check_code_safety P code \<noteq> None
       \<and> fst (execute P s code) ''success'' = Some (PyBool False)
       \<and> fst (execute P s code) ''error_type'' = Some (PyStr (str ''SecurityError''))
       \<and> snd (execute P s code) = s"
proof -
  have "check_node (Attribute v attr) \<noteq> None" using assms(3,4) by simp
  with assms(1,2) have "check_code_safety P code \<noteq> None" by (rule check_rejects_node)
  then show ?thesis using execute_rejected by blast
qed

text \<open>
  C1 (as amended). If the code parses and contains an \<open>import\<close> naming a module of
  \<open>FORBIDDEN_MODULES\<close>, or a \<open>from M import\<close> with \<open>M\<close> in \<open>FORBIDDEN_MODULES\<close>, the safety
  check raises a violation, \<open>execute\<close> reports a \<open>SecurityError\<close>, and the code is not
  executed: the executor, its namespace and the log of executed code are unchanged.
\<close>

theorem forbidden_import_rejected:
  assumes "ast_parse P code = Some tree"
    and "(Import names \<in> set (nodes_of tree) \<and> m \<in> set names) \<or> ImportFrom (Some m) \<in> set (nodes_of tree)"
    and "m \<in> set FORBIDDEN_MODULES"
  shows "check_code_safety P code \<noteq> None
       \<and> fst (execute P s code) ''success'' = Some (PyBool False)
       \<and> fst (execute P s code) ''error_type'' = Some (PyStr (str ''SecurityError''))
       \<and> snd (execute P s code) = s"
proof -
  have "check_code_safety P code \<noteq> None"
    using assms(2)
  proof
    assume a: "Import names \<in> set (nodes_of tree) \<and> m \<in> set names"
    then have "find (\<lambda>name. name \<in> set FORBIDDEN_MODULES) names \<noteq> None"
      using assms(3) by (auto simp: find_None_iff)
    then have "check_node (Import names) \<noteq> None" by (auto split: option.splits)
    with assms(1) a show ?thesis using check_rejects_node by blast
  next
    assume a: "ImportFrom (Some m) \<in> set (nodes_of tree)"
    have "check_node (ImportFrom (Some m)) \<noteq> None" using assms(3) by simp
    with assms(1) a show ?thesis using check_rejects_node by blast
  qed
  then show ?thesis using execute_rejected by blast
qed

lemma str_nonempty: "s \<noteq> [] \<Longrightarrow> str s \<noteq> []"
  by (simp add: str_def)

lemma timeout_message_nonempty: "timeout_message n \<noteq> []"
  by (simp add: timeout_message_def)

lemma runtime_import_message_nonempty: "runtime_import_message \<noteq> []"
  by (simp add: runtime_import_message_def str_def)

lemma security_import_message_nonempty: "security_import_message \<noteq> []"
  by (simp add: security_import_message_def)

lemma check_node_nonempty: "check_node n = Some msg \<Longrightarrow> msg \<noteq> []"
  by (cases n)
    (auto simp: msg_forbidden_module_def msg_forbidden_function_def msg_forbidden_attribute_def
      split: option.splits if_splits node.splits)

lemma first_violation_nonempty: "first_violation ns = Some msg \<Longrightarrow> msg \<noteq> []"
  by (induction ns) (auto split: option.splits dest: check_node_nonempty)

lemma check_code_safety_nonempty: "check_code_safety P code = Some msg \<Longrightarrow> msg \<noteq> []"
  unfolding check_code_safety_def
  by (cases "ast_parse P code") (auto simp del: walk.simps dest: first_violation_nonempty)

lemma outcome_dict_Finished:
  "outcome_dict P n (Finished out err)
     = [''success'' \<mapsto> PyBool True, ''stdout'' \<mapsto> PyStr out, ''stderr'' \<mapsto> PyStr err]"
  by (simp add: outcome_dict_def)

text \<open>
  C4 (as amended). An outcome of \<open>execute\<close> with \<open>success = True\<close> has none of the keys
  \<open>error_type\<close>, \<open>error\<close>, \<open>error_message\<close>, \<open>traceback\<close>. Every other outcome has
  \<open>success = False\<close> and has \<open>error_type\<close> and \<open>error\<close>, both strings. For a policy
  violation (\<open>SecurityError\<close>) and for the timeout raised by the sandbox's alarm
  (\<open>TimeoutError\<close>, with the message that names the timeout) both are non-empty. For a
  syntax error (\<open>SyntaxError\<close>) and for a \<open>TimeoutError\<close> raised by the code itself the
  message is the text of the exception; for any other exception of the run both are
  non-empty whenever its class name and its text are. The key \<open>error_message\<close> is present,
  with the value of \<open>error\<close>, for policy violations and for exceptions of the run other
  than \<open>TimeoutError\<close>, and absent from every other outcome.
\<close>

theorem execute_outcome_shape:
  "(fst (execute P s code) ''success'' = Some (PyBool True)
      \<longrightarrow> fst (execute P s code) ''error_type'' = None
        \<and> fst (execute P s code) ''error'' = None
        \<and> fst (execute P s code) ''error_message'' = None
        \<and> fst (execute P s code) ''traceback'' = None)
   \<and> (fst (execute P s code) ''success'' \<noteq> Some (PyBool True)
      \<longrightarrow> fst (execute P s code) ''success'' = Some (PyBool False)
        \<and> (\<exists>kind msg. fst (execute P s code) ''error_type'' = Some (PyStr kind)
              \<and> fst (execute P s code) ''error'' = Some (PyStr msg)
              \<and> (check_code_safety P code \<noteq> None
                   \<longrightarrow> kind = str ''SecurityError'' \<and> kind \<noteq> [] \<and> msg \<noteq> []
                     \<and> fst (execute P s code) ''error_message'' = Some (PyStr msg))
              \<and> (check_code_safety P code = None
                   \<longrightarrow> (\<forall>etext tb. compile_code P code = Some (etext, tb)
                          \<longrightarrow> kind = str ''SyntaxError'' \<and> kind \<noteq> [] \<and> msg = etext
                            \<and> fst (execute P s code) ''error_message'' = None)
                     \<and> (compile_code P code = None
                          \<longrightarrow> (\<forall>e tb out err g.
                                 exec_code P (if has_SIGALRM P then Some (timeout s) else None)
                                   (globals_dict s) code = (Failed e tb out err, g)
                                 \<longrightarrow> (e = Alarm
                                       \<longrightarrow> kind = str ''TimeoutError'' \<and> kind \<noteq> []
                                         \<and> msg = timeout_message (timeout s) \<and> msg \<noteq> []
                                         \<and> fst (execute P s code) ''error_message'' = None)
                                   \<and> (\<forall>name etext. e = Exn name True etext
                                       \<longrightarrow> kind = str ''TimeoutError'' \<and> kind \<noteq> [] \<and> msg = etext
                                         \<and> fst (execute P s code) ''error_message'' = None)
                                   \<and> (\<forall>name etext. e = Exn name False etext
                                       \<longrightarrow> (name \<noteq> [] \<and> etext \<noteq> [] \<longrightarrow> kind \<noteq> [] \<and> msg \<noteq> [])
                                         \<and> fst (execute P s code) ''error_message''
                                             = Some (PyStr msg)))))))"
proof (cases "check_code_safety P code")
  case (Some viol)
  then have "viol \<noteq> []" by (rule check_code_safety_nonempty)
  with Some show ?thesis
    by (simp add: execute_def Let_def security_import_message_nonempty str_def)
next
  case None
  show ?thesis
  proof (cases "compile_code P code")
    case (Some synerr)
    obtain etext tb where "synerr = (etext, tb)" by (cases synerr)
    with None Some show ?thesis by (simp add: execute_def str_def)
  next
    case noerr: None
    let ?alarm = "if has_SIGALRM P then Some (timeout s) else None"
    obtain outcome g where run: "exec_code P ?alarm (globals_dict s) code = (outcome, g)"
      by (cases "exec_code P ?alarm (globals_dict s) code")
    have ex: "fst (execute P s code) = outcome_dict P (timeout s) outcome"
      using None noerr run by (simp add: execute_def execute_with_timeout_def Let_def)
    show ?thesis
    proof (cases outcome)
      case (Finished out err)
      then show ?thesis using ex by (simp add: outcome_dict_Finished)
    next
      case (Failed e tb out err)
      show ?thesis
      proof (cases e)
        case Alarm
        have d: "fst (execute P s code)
            = [''success'' \<mapsto> PyBool False, ''error_type'' \<mapsto> PyStr (str ''TimeoutError''),
               ''error'' \<mapsto> PyStr (timeout_message (timeout s)),
               ''traceback'' \<mapsto> PyStr tb,
               ''stdout'' \<mapsto> PyStr out, ''stderr'' \<mapsto> PyStr err]"
          using ex Failed Alarm by (simp add: outcome_dict_def)
        show ?thesis
          using None noerr run Failed Alarm
          by (simp add: d timeout_message_nonempty str_def)
      next
        case (Exn name is_timeout etext)
        show ?thesis
        proof (cases is_timeout)
          case True
          have d: "fst (execute P s code)
              = [''success'' \<mapsto> PyBool False, ''error_type'' \<mapsto> PyStr (str ''TimeoutError''),
                 ''error'' \<mapsto> PyStr etext,
                 ''traceback'' \<mapsto> PyStr tb,
                 ''stdout'' \<mapsto> PyStr out, ''stderr'' \<mapsto> PyStr err]"
            using ex Failed Exn True by (simp add: outcome_dict_def)
          show ?thesis
            using None noerr run Failed Exn True by (simp add: d str_def)
        next
          case False
          define friendly where "friendly = (str_contains (str ''__import__'') (lower P etext)
                                 \<or> str_contains (str ''__import__ not found'') etext)"
          define error_msg where "error_msg = (if friendly then runtime_import_message else etext)"
          define error_type where "error_type = (if friendly then str ''ImportError'' else name)"
          have d: "fst (execute P s code)
              = [''success'' \<mapsto> PyBool False, ''error_type'' \<mapsto> PyStr error_type,
                 ''error'' \<mapsto> PyStr error_msg,
                 ''error_message'' \<mapsto> PyStr error_msg,
                 ''traceback'' \<mapsto> PyStr tb,
                 ''stdout'' \<mapsto> PyStr out, ''stderr'' \<mapsto> PyStr err]"
            using ex Failed Exn False
            by (simp add: outcome_dict_def Let_def friendly_def error_msg_def error_type_def)
          have ne: "name \<noteq> [] \<and> etext \<noteq> [] \<longrightarrow> error_type \<noteq> [] \<and> error_msg \<noteq> []"
            by (simp add: error_msg_def error_type_def runtime_import_message_nonempty str_def)
          show ?thesis
            using None noerr run Failed Exn False ne by (simp add: d)
        qed
      qed
    qed
  qed
qed

theorem dunder_attribute_rejected_witness:
  "ast_parse (python_on dunder_source dunder_tree print_outcome 0) dunder_source = Some dunder_tree
   \<and> Attribute (Name (str ''x'')) (str ''__class__'') \<in> set (nodes_of dunder_tree)
   \<and> startswith (str ''__class__'') (str ''__'')
   \<and> endswith (str ''__class__'') (str ''__'')
   \<and> check_code_safety (python_on dunder_source dunder_tree print_outcome 0) dunder_source \<noteq> None
   \<and> snd (execute (python_on dunder_source dunder_tree print_outcome 0) fresh_executor dunder_source)
       = fresh_executor"
proof -
  have 1: "ast_parse (python_on dunder_source dunder_tree print_outcome 0) dunder_source
            = Some dunder_tree"
    by (simp add: python_on_def)
  have 2: "Attribute (Name (str ''x'')) (str ''__class__'') \<in> set (nodes_of dunder_tree)"
    by (simp add: dunder_tree_def)
  have 3: "startswith (str ''__class__'') (str ''__'')"
    by (simp add: startswith_def str_def)
  have 4: "endswith (str ''__class__'') (str ''__'')"
    by (simp add: endswith_def str_def)
  from dunder_attribute_rejected [OF 1 2 3 4, of fresh_executor] 1 2 3 4 show ?thesis by simp
qed

text \<open>
  C1 as stated fails: \<^verbatim>\<open>print(1)\<close> followed by \<^verbatim>\<open>import json\<close> parses and contains an
  import, \<open>json\<close> is not in \<open>FORBIDDEN_MODULES\<close>, the check accepts the code and it is handed
  to \<open>exec\<close>, which prints before the import fails.
\<close>

theorem unlisted_import_is_executed:
  "ast_parse (python_on json_source json_tree json_outcome 0) json_source = Some json_tree
   \<and> Import [str ''json''] \<in> set (nodes_of json_tree)
   \<and> check_code_safety (python_on json_source json_tree json_outcome 0) json_source = None
   \<and> exec_log (snd (execute (python_on json_source json_tree json_outcome 0) fresh_executor json_source))
       = [json_source]
   \<and> fst (execute (python_on json_source json_tree json_outcome 0) fresh_executor json_source) ''stdout''
       = Some (PyStr (str ''1'' @ [10]))"
proof -
  have 1: "ast_parse (python_on json_source json_tree json_outcome 0) json_source = Some json_tree"
    by (simp add: python_on_def)
  have 2: "Import [str ''json''] \<in> set (nodes_of json_tree)"
    by (simp add: json_tree_def)
  have b: "str ''print'' \<notin> set FORBIDDEN_BUILTINS"
    by (simp add: FORBIDDEN_BUILTINS_def str_def)
  have m: "str ''json'' \<notin> set FORBIDDEN_MODULES"
    by (simp add: FORBIDDEN_MODULES_def str_def)
  have fv: "first_violation (walk [json_tree]) = None"
    using b m by (simp add: json_tree_def)
  have 3: "check_code_safety (python_on json_source json_tree json_outcome 0) json_source = None"
    using 1 fv by (simp add: check_code_safety_def del: walk.simps)
  have c: "compile_code (python_on json_source json_tree json_outcome 0) json_source = None"
    by (simp add: python_on_def)
  have 4: "exec_log (snd (execute (python_on json_source json_tree json_outcome 0) fresh_executor json_source))
       = [json_source]"
    using 3 c by (simp add: execute_def execute_with_timeout_def python_on_def fresh_executor_def)
  have 5: "fst (execute (python_on json_source json_tree json_outcome 0) fresh_executor json_source) ''stdout''
       = Some (PyStr (str ''1'' @ [10]))"
    using 3 c by (simp add: execute_def execute_with_timeout_def python_on_def fresh_executor_def
        outcome_dict_def json_outcome_def Let_def)
  from 1 2 3 4 5 show ?thesis by simp
qed

theorem forbidden_import_rejected_witness:
  "ast_parse (python_on os_source os_tree print_outcome 0) os_source = Some os_tree
   \<and> Import [str ''os''] \<in> set (nodes_of os_tree) \<and> str ''os'' \<in> set [str ''os'']
   \<and> str ''os'' \<in> set FORBIDDEN_MODULES
   \<and> check_code_safety (python_on os_source os_tree print_outcome 0) os_source \<noteq> None
   \<and> fst (execute (python_on os_source os_tree print_outcome 0) fresh_executor os_source) ''error_type''
       = Some (PyStr (str ''SecurityError''))
   \<and> exec_log (snd (execute (python_on os_source os_tree print_outcome 0) fresh_executor os_source)) = []"
proof -
  have 1: "ast_parse (python_on os_source os_tree print_outcome 0) os_source = Some os_tree"
    by (simp add: python_on_def)
  have 2: "(Import [str ''os''] \<in> set (nodes_of os_tree) \<and> str ''os'' \<in> set [str ''os''])
           \<or> ImportFrom (Some (str ''os'')) \<in> set (nodes_of os_tree)"
    by (simp add: os_tree_def)
  have 3: "str ''os'' \<in> set FORBIDDEN_MODULES"
    by (simp add: FORBIDDEN_MODULES_def)
  have 4: "exec_log fresh_executor = []" by (simp add: fresh_executor_def)
  from forbidden_import_rejected [OF 1 2 3, of fresh_executor] 1 2 3 4 show ?thesis by (simp add: os_tree_def)
qed

text \<open>
  C4 as stated fails: \<^verbatim>\<open>raise ValueError()\<close> passes the check, is executed and fails with
  \<open>success = False\<close> and an empty error message.
\<close>

theorem empty_error_message:
  "check_code_safety (python_on raise_source raise_tree raise_outcome 0) raise_source = None
   \<and> fst (execute (python_on raise_source raise_tree raise_outcome 0) fresh_executor raise_source)
        ''success'' = Some (PyBool False)
   \<and> fst (execute (python_on raise_source raise_tree raise_outcome 0) fresh_executor raise_source)
        ''error_type'' = Some (PyStr (str ''ValueError''))
   \<and> fst (execute (python_on raise_source raise_tree raise_outcome 0) fresh_executor raise_source)
        ''error'' = Some (PyStr [])"
proof -
  have b: "str ''ValueError'' \<notin> set FORBIDDEN_BUILTINS"
    by (simp add: FORBIDDEN_BUILTINS_def str_def)
  have fv: "first_violation (walk [raise_tree]) = None"
    using b by (simp add: raise_tree_def)
  have 1: "check_code_safety (python_on raise_source raise_tree raise_outcome 0) raise_source = None"
    using fv by (simp add: check_code_safety_def python_on_def del: walk.simps)
  have c: "compile_code (python_on raise_source raise_tree raise_outcome 0) raise_source = None"
    by (simp add: python_on_def)
  have e: "fst (execute (python_on raise_source raise_tree raise_outcome 0) fresh_executor raise_source)
      = outcome_dict (python_on raise_source raise_tree raise_outcome 0) 30 raise_outcome"
    using 1 c by (simp add: execute_def execute_with_timeout_def python_on_def fresh_executor_def)
  have l: "lower (python_on raise_source raise_tree raise_outcome 0) [] = []"
    by (simp add: python_on_def ascii_lower_def)
  have n: "\<not> str_contains (str ''__import__'') []" "\<not> str_contains (str ''__import__ not found'') []"
    by (simp_all add: str_def)
  have d: "outcome_dict (python_on raise_source raise_tree raise_outcome 0) 30 raise_outcome
    = [''success'' \<mapsto> PyBool False, ''error_type'' \<mapsto> PyStr (str ''ValueError''),
       ''error'' \<mapsto> PyStr [], ''error_message'' \<mapsto> PyStr [],
       ''traceback'' \<mapsto> PyStr (str ''Traceback (most recent call last)''),
       ''stdout'' \<mapsto> PyStr [], ''stderr'' \<mapsto> PyStr []]"
    using l n by (simp add: outcome_dict_def raise_outcome_def Let_def)
  show ?thesis using 1 by (simp add: e d)
qed

theorem execute_outcome_shape_witness:
  "check_code_safety (python_on dunder_source dunder_tree print_outcome 0) dunder_source \<noteq> None
   \<and> fst (execute (python_on dunder_source dunder_tree print_outcome 0) fresh_executor dunder_source)
      ''success'' = Some (PyBool False)
   \<and> fst (execute (python_on dunder_source dunder_tree print_outcome 0) fresh_executor dunder_source)
      ''error_type'' = Some (PyStr (str ''SecurityError''))
   \<and> fst (execute (python_on dunder_source dunder_tree print_outcome 0) fresh_executor dunder_source)
      ''error_message''
       = fst (execute (python_on dunder_source dunder_tree print_outcome 0) fresh_executor dunder_source)
           ''error''
   \<and> fst (execute (python_on dunder_source dunder_tree print_outcome 0) fresh_executor dunder_source)
      ''error'' \<noteq> Some (PyStr [])
   \<and> fst (execute (python_on print_source print_tree print_outcome 0) fresh_executor print_source)
      ''success'' = Some (PyBool True)
   \<and> fst (execute (python_on print_source print_tree print_outcome 0) fresh_executor print_source)
      ''error'' = None
   \<and> compile_code (python_on print_source print_tree print_outcome 0) dunder_source
       = Some (str ''invalid syntax'', [])
   \<and> fst (execute (python_on print_source print_tree print_outcome 0) fresh_executor dunder_source)
      ''error_type'' = Some (PyStr (str ''SyntaxError''))
   \<and> fst (execute (python_on print_source print_tree print_outcome 0) fresh_executor dunder_source)
      ''error_message'' = None
   \<and> exec_code (python_on loop_source loop_tree loop_outcome 30) (Some 30) () loop_source
       = (loop_outcome, ())
   \<and> fst (execute (python_on loop_source loop_tree loop_outcome 30) fresh_executor loop_source)
      ''error_type'' = Some (PyStr (str ''TimeoutError''))
   \<and> fst (execute (python_on loop_source loop_tree loop_outcome 30) fresh_executor loop_source)
      ''error'' = Some (PyStr (timeout_message 30))
   \<and> fst (execute (python_on loop_source loop_tree loop_outcome 30) fresh_executor loop_source)
      ''error_message'' = None
   \<and> exec_code (python_on json_source json_tree json_outcome 0) (Some 30) () json_source
       = (json_outcome, ())
   \<and> fst (execute (python_on json_source json_tree json_outcome 0) fresh_executor json_source)
      ''error_message''
       = fst (execute (python_on json_source json_tree json_outcome 0) fresh_executor json_source)
           ''error''
   \<and> fst (execute (python_on json_source json_tree json_outcome 0) fresh_executor json_source)
      ''error'' \<noteq> Some (PyStr [])"
proof -
  let ?P = "python_on dunder_source dunder_tree print_outcome 0"
  let ?Q = "python_on print_source print_tree print_outcome 0"
  let ?L = "python_on loop_source loop_tree loop_outcome 30"
  let ?J = "python_on json_source json_tree json_outcome 0"
  have fvd: "first_violation (walk [dunder_tree]) \<noteq> None"
    by (simp add: dunder_tree_def startswith_def endswith_def str_def)
  have cd: "check_code_safety ?P dunder_source \<noteq> None"
    using fvd by (simp add: check_code_safety_def python_on_def del: walk.simps)
  then have f: "fst (execute ?P fresh_executor dunder_source) ''success'' \<noteq> Some (PyBool True)"
    by (auto simp: execute_def Let_def)
  from execute_outcome_shape [of ?P fresh_executor dunder_source] f cd
  have A: "fst (execute ?P fresh_executor dunder_source) ''success'' = Some (PyBool False)
      \<and> fst (execute ?P fresh_executor dunder_source) ''error_type''
          = Some (PyStr (str ''SecurityError''))
      \<and> fst (execute ?P fresh_executor dunder_source) ''error_message''
          = fst (execute ?P fresh_executor dunder_source) ''error''
      \<and> fst (execute ?P fresh_executor dunder_source) ''error'' \<noteq> Some (PyStr [])"
    by auto
  have b: "str ''print'' \<notin> set FORBIDDEN_BUILTINS"
    by (simp add: FORBIDDEN_BUILTINS_def str_def)
  have fvp: "first_violation (walk [print_tree]) = None"
    using b by (simp add: print_tree_def)
  have cp: "check_code_safety ?Q print_source = None"
    using fvp by (simp add: check_code_safety_def python_on_def del: walk.simps)
  have sp: "fst (execute ?Q fresh_executor print_source) ''success'' = Some (PyBool True)"
    using cp by (simp add: execute_def execute_with_timeout_def python_on_def fresh_executor_def
        outcome_dict_def print_outcome_def)
  with execute_outcome_shape [of ?Q fresh_executor print_source]
  have B: "fst (execute ?Q fresh_executor print_source) ''error'' = None" by blast
  have ne: "dunder_source \<noteq> print_source"
    by (simp add: dunder_source_def print_source_def str_def)
  have cq: "check_code_safety ?Q dunder_source = None"
    using ne by (simp add: check_code_safety_def python_on_def)
  have cc: "compile_code ?Q dunder_source = Some (str ''invalid syntax'', [])"
    using ne by (simp add: python_on_def)
  have fq: "fst (execute ?Q fresh_executor dunder_source) ''success'' \<noteq> Some (PyBool True)"
    using cq cc by (simp add: execute_def)
  from execute_outcome_shape [of ?Q fresh_executor dunder_source] fq cq cc
  have C: "fst (execute ?Q fresh_executor dunder_source) ''error_type''
          = Some (PyStr (str ''SyntaxError''))
      \<and> fst (execute ?Q fresh_executor dunder_source) ''error_message'' = None"
    by auto
  have fvl: "first_violation (walk [loop_tree]) = None"
    using b by (simp add: loop_tree_def)
  have cl: "check_code_safety ?L loop_source = None"
    using fvl by (simp add: check_code_safety_def python_on_def del: walk.simps)
  have ccl: "compile_code ?L loop_source = None" by (simp add: python_on_def)
  have rl: "exec_code ?L (if has_SIGALRM ?L then Some (timeout fresh_executor) else None)
              (globals_dict fresh_executor) loop_source
            = (Failed Alarm (str ''Traceback (most recent call last)'') (str ''1'' @ [10]) [], ())"
    by (simp add: python_on_def loop_outcome_def fresh_executor_def)
  have fl: "fst (execute ?L fresh_executor loop_source) ''success'' \<noteq> Some (PyBool True)"
    using cl ccl by (simp add: execute_def execute_with_timeout_def python_on_def
        outcome_dict_def loop_outcome_def)
  from execute_outcome_shape [of ?L fresh_executor loop_source] fl cl ccl rl
  have D: "fst (execute ?L fresh_executor loop_source) ''error_type''
          = Some (PyStr (str ''TimeoutError''))
      \<and> fst (execute ?L fresh_executor loop_source) ''error'' = Some (PyStr (timeout_message 30))
      \<and> fst (execute ?L fresh_executor loop_source) ''error_message'' = None"
    by (auto simp: fresh_executor_def)
  have rl': "exec_code ?L (Some 30) () loop_source = (loop_outcome, ())"
    by (simp add: python_on_def)
  have mj: "str ''json'' \<notin> set FORBIDDEN_MODULES"
    by (simp add: FORBIDDEN_MODULES_def str_def)
  have fvj: "first_violation (walk [json_tree]) = None"
    using b mj by (simp add: json_tree_def)
  have cj: "check_code_safety ?J json_source = None"
    using fvj by (simp add: check_code_safety_def python_on_def del: walk.simps)
  have ccj: "compile_code ?J json_source = None" by (simp add: python_on_def)
  have rj: "exec_code ?J (if has_SIGALRM ?J then Some (timeout fresh_executor) else None)
              (globals_dict fresh_executor) json_source
            = (Failed (Exn (str ''ImportError'') False (str ''__import__ not found''))
                 (str ''Traceback (most recent call last)'') (str ''1'' @ [10]) [], ())"
    by (simp add: python_on_def json_outcome_def fresh_executor_def)
  have fj: "fst (execute ?J fresh_executor json_source) ''success'' \<noteq> Some (PyBool True)"
    using cj ccj by (simp add: execute_def execute_with_timeout_def python_on_def
        outcome_dict_def json_outcome_def Let_def)
  have nj: "str ''ImportError'' \<noteq> [] \<and> str ''__import__ not found'' \<noteq> []"
    by (simp add: str_def)
  from execute_outcome_shape [of ?J fresh_executor json_source] fj cj ccj rj nj
  have E: "fst (execute ?J fresh_executor json_source) ''error_message''
          = fst (execute ?J fresh_executor json_source) ''error''
      \<and> fst (execute ?J fresh_executor json_source) ''error'' \<noteq> Some (PyStr [])"
    by auto
  have rj': "exec_code ?J (Some 30) () json_source = (json_outcome, ())"
    by (simp add: python_on_def)
  from cd A sp B cc C rl' D rj' E show ?thesis by simp
qed


text \<open>
  C7 (as amended). When the run ends with a \<open>TimeoutError\<close> leaving \<open>exec\<close> (the one
  raised by the alarm's handler, or any other instance), the outcome has
  \<open>success = False\<close> and \<open>error_type = 'TimeoutError'\<close>, and it contains the stdout and
  stderr captured up to the interrupt.
\<close>

theorem timeout_outcome:
  assumes chk: "check_code_safety P code = None" and cmp: "compile_code P code = None"
    and run: "exec_code P (if has_SIGALRM P then Some (timeout s) else None) (globals_dict s) code
               = (Failed e tb out err, g)"
    and e: "e = Alarm \<or> e = Exn name True etext"
  shows "fst (execute P s code) ''success'' = Some (PyBool False)
       \<and> fst (execute P s code) ''error_type'' = Some (PyStr (str ''TimeoutError''))
       \<and> fst (execute P s code) ''stdout'' = Some (PyStr out)
       \<and> fst (execute P s code) ''stderr'' = Some (PyStr err)"
proof -
  have ex: "fst (execute P s code) = outcome_dict P (timeout s) (Failed e tb out err)"
    using chk cmp run by (simp add: execute_def execute_with_timeout_def Let_def)
  from e show ?thesis
  proof
    assume "e = Alarm"
    then show ?thesis by (simp add: ex outcome_dict_def)
  next
    assume "e = Exn name True etext"
    then show ?thesis by (simp add: ex outcome_dict_def)
  qed
qed

text \<open>
  C7 as stated fails: where the signal module has no \<open>SIGALRM\<close> no alarm is armed, and a
  run of five minutes under a timeout of thirty seconds returns \<open>success = True\<close> with no
  error kind.
\<close>

theorem slow_run_without_alarm_succeeds:
  "\<not> has_SIGALRM (without_SIGALRM (python_on slow_source slow_tree slow_outcome 300))
   \<and> timeout fresh_executor
       < elapsed (without_SIGALRM (python_on slow_source slow_tree slow_outcome 300)) None
           (globals_dict fresh_executor) slow_source
   \<and> fst (execute (without_SIGALRM (python_on slow_source slow_tree slow_outcome 300))
            fresh_executor slow_source) ''success'' = Some (PyBool True)
   \<and> fst (execute (without_SIGALRM (python_on slow_source slow_tree slow_outcome 300))
            fresh_executor slow_source) ''error_type'' = None"
proof -
  let ?P = "without_SIGALRM (python_on slow_source slow_tree slow_outcome 300)"
  have 1: "\<not> has_SIGALRM ?P" by (simp add: without_SIGALRM_def)
  have 2: "timeout fresh_executor < elapsed ?P None (globals_dict fresh_executor) slow_source"
    by (simp add: without_SIGALRM_def python_on_def fresh_executor_def)
  have b: "str ''sum'' \<notin> set FORBIDDEN_BUILTINS" "str ''range'' \<notin> set FORBIDDEN_BUILTINS"
    by (simp_all add: FORBIDDEN_BUILTINS_def str_def)
  have fv: "first_violation (walk [slow_tree]) = None"
    using b by (simp add: slow_tree_def)
  have c: "check_code_safety ?P slow_source = None"
    using fv by (simp add: check_code_safety_def without_SIGALRM_def python_on_def del: walk.simps)
  have d: "fst (execute ?P fresh_executor slow_source)
      = [''success'' \<mapsto> PyBool True, ''stdout'' \<mapsto> PyStr [], ''stderr'' \<mapsto> PyStr []]"
    using c by (simp add: execute_def execute_with_timeout_def without_SIGALRM_def python_on_def
        fresh_executor_def outcome_dict_def slow_outcome_def)
  show ?thesis using 1 2 by (simp add: d)
qed

theorem timeout_outcome_witness:
  "check_code_safety (python_on loop_source loop_tree loop_outcome 30) loop_source = None
   \<and> compile_code (python_on loop_source loop_tree loop_outcome 30) loop_source = None
   \<and> exec_code (python_on loop_source loop_tree loop_outcome 30) (Some 30) () loop_source
       = (Failed Alarm (str ''Traceback (most recent call last)'') (str ''1'' @ [10]) [], ())
   \<and> fst (execute (python_on loop_source loop_tree loop_outcome 30) fresh_executor loop_source)
        ''success'' = Some (PyBool False)
   \<and> fst (execute (python_on loop_source loop_tree loop_outcome 30) fresh_executor loop_source)
        ''error_type'' = Some (PyStr (str ''TimeoutError''))
   \<and> fst (execute (python_on loop_source loop_tree loop_outcome 30) fresh_executor loop_source)
        ''stdout'' = Some (PyStr (str ''1'' @ [10]))"
proof -
  let ?P = "python_on loop_source loop_tree loop_outcome 30"
  have b: "str ''print'' \<notin> set FORBIDDEN_BUILTINS"
    by (simp add: FORBIDDEN_BUILTINS_def str_def)
  have fv: "first_violation (walk [loop_tree]) = None"
    using b by (simp add: loop_tree_def)
  have chk: "check_code_safety ?P loop_source = None"
    using fv by (simp add: check_code_safety_def python_on_def del: walk.simps)
  have cmp: "compile_code ?P loop_source = None" by (simp add: python_on_def)
  have run: "exec_code ?P (if has_SIGALRM ?P then Some (timeout fresh_executor) else None)
                (globals_dict fresh_executor) loop_source
       = (Failed Alarm (str ''Traceback (most recent call last)'') (str ''1'' @ [10]) [], ())"
    by (simp add: python_on_def loop_outcome_def)
  have run': "exec_code ?P (Some 30) () loop_source
       = (Failed Alarm (str ''Traceback (most recent call last)'') (str ''1'' @ [10]) [], ())"
    by (simp add: python_on_def loop_outcome_def)
  have e: "Alarm = Alarm \<or> Alarm = Exn [] True []" by simp
  from timeout_outcome [OF chk cmp run e] chk cmp run' show ?thesis by simp
qed


section \<open>Properties of the retry loop\<close>

text \<open>
  C2 (as amended). When the generation service raises at an attempt, nothing is executed
  in that attempt and the last code, the last result and the error feedback stay as they
  were. If the attempt is not the last one (\<open>attempt < max_retries - 1\<close>, attempt 0 included)
  the loop proceeds to the next attempt; on the last attempt it returns at once the last
  code and result with the current attempt index.
\<close>

theorem generation_failure_policy:
  assumes "generate_code sv (world st) (error_feedback st) = (None, w1)"
  shows "retry_loop sv mr (attempt # rest) st =
           (if attempt < mr - 1
            then retry_loop sv mr rest (st\<lparr>world := w1, events := events st @ [Generate attempt]\<rparr>)
            else ((last_code st, last_result st, attempt),
                  st\<lparr>world := w1, events := events st @ [Generate attempt]\<rparr>))"
  using assms by (simp add: attempt_body_def)

text \<open>
  C2 as stated fails: with \<open>max_retries = 3\<close>, a generation that raises at attempt 0 is
  followed by a second generation at attempt 1, whose code is executed and succeeds with
  \<open>retry_count = 1\<close>.
\<close>

theorem first_generation_failure_not_fatal:
  "generate_code (scripted [None, Some (str ''print(len(df))'')] demo_run None) 0 None = (None, 1)
   \<and> fst (generate_and_execute_with_retry
            (scripted [None, Some (str ''print(len(df))'')] demo_run None) 3 0)
       = (Some (str ''print(len(df))''), Some (demo_run (str ''print(len(df))'')), 1)
   \<and> events (snd (generate_and_execute_with_retry
            (scripted [None, Some (str ''print(len(df))'')] demo_run None) 3 0))
       = [Generate 0, Generate 1, Execute 1 (str ''print(len(df))'')]"
proof -
  let ?sv = "scripted [None, Some (str ''print(len(df))'')] demo_run None"
  have up: "[0..(3::int) - 1] = [0, 1, 2]" by (simp add: upto_rec1)
  have a0: "attempt_body ?sv 0 (initial_state 0)
      = Except ((initial_state 0)\<lparr>world := Suc 0, events := [Generate 0]\<rparr>)"
    by (simp add: attempt_body_def scripted_def initial_state_def)
  have ok: "demo_run (str ''print(len(df))'') ''success'' = Some (PyBool True)"
    by (simp add: demo_run_def)
  have a1: "attempt_body ?sv 1 ((initial_state 0)\<lparr>world := Suc 0, events := [Generate 0]\<rparr>)
      = Return (Some (str ''print(len(df))''), Some (demo_run (str ''print(len(df))'')), 1)
          ((initial_state 0)\<lparr>last_code := Some (str ''print(len(df))''),
             last_result := Some (demo_run (str ''print(len(df))'')),
             world := Suc (Suc 0), events := [Generate 0, Generate 1, Execute 1 (str ''print(len(df))'')]\<rparr>)"
    using ok by (simp add: attempt_body_def scripted_def initial_state_def)
  have g: "generate_code ?sv 0 None = (None, 1)" by (simp add: scripted_def)
  have r: "generate_and_execute_with_retry ?sv 3 0
     = ((Some (str ''print(len(df))''), Some (demo_run (str ''print(len(df))'')), 1),
        (initial_state 0)\<lparr>last_code := Some (str ''print(len(df))''),
             last_result := Some (demo_run (str ''print(len(df))'')),
             world := Suc (Suc 0), events := [Generate 0, Generate 1, Execute 1 (str ''print(len(df))'')]\<rparr>)"
    unfolding generate_and_execute_with_retry_def up by (simp add: a0 a1)
  show ?thesis using g by (simp add: r)
qed

theorem generation_failure_policy_witness:
  "generate_code (scripted [None, Some (str ''print(len(df))'')] demo_run None)
      (world (initial_state 0)) (error_feedback (initial_state 0)) = (None, 1)
   \<and> retry_loop (scripted [None, Some (str ''print(len(df))'')] demo_run None) 3 [0, 1, 2]
        (initial_state 0)
       = retry_loop (scripted [None, Some (str ''print(len(df))'')] demo_run None) 3 [1, 2]
           ((initial_state 0)\<lparr>world := 1, events := [Generate 0]\<rparr>)
   \<and> retry_loop (scripted [None, Some (str ''print(len(df))'')] demo_run None) 1 [0]
        (initial_state 0)
       = ((None, None, 0), (initial_state 0)\<lparr>world := 1, events := [Generate 0]\<rparr>)"
proof -
  let ?sv = "scripted [None, Some (str ''print(len(df))'')] demo_run None"
  have g: "generate_code ?sv (world (initial_state 0)) (error_feedback (initial_state 0)) = (None, 1)"
    by (simp add: scripted_def initial_state_def)
  from generation_failure_policy [OF g, of 3 0 "[1, 2]"] generation_failure_policy [OF g, of 1 0 "[]"] g
  show ?thesis by (simp add: initial_state_def)
qed

lemma deep_analysis_events:
  "DeepAnalysis b \<in> set (events (end_state (deep_analysis sv a fb st)))
     \<Longrightarrow> b = a \<or> DeepAnalysis b \<in> set (events st)"
  by (auto simp: deep_analysis_def Let_def split: prod.splits option.splits if_splits)

lemma attempt_body_events:
  "DeepAnalysis b \<in> set (events (end_state (attempt_body sv a st)))
     \<Longrightarrow> b = 0 \<or> DeepAnalysis b \<in> set (events st)"
  by (auto simp: attempt_body_def Let_def split: prod.splits option.splits if_splits
      dest!: deep_analysis_events)

lemma retry_loop_events:
  "DeepAnalysis b \<in> set (events (snd (retry_loop sv mr attempts st)))
     \<Longrightarrow> b = 0 \<or> DeepAnalysis b \<in> set (events st)"
proof (induction attempts arbitrary: st)
  case Nil
  then show ?case by simp
next
  case (Cons a attempts)
  show ?case
  proof (cases "attempt_body sv a st")
    case (Return r st')
    with Cons.prems have "DeepAnalysis b \<in> set (events (end_state (attempt_body sv a st)))"
      by simp
    then show ?thesis by (rule attempt_body_events)
  next
    case (Next st')
    with Cons.prems have "DeepAnalysis b \<in> set (events (snd (retry_loop sv mr attempts st')))"
      by simp
    then have "b = 0 \<or> DeepAnalysis b \<in> set (events st')" by (rule Cons.IH)
    moreover have "end_state (attempt_body sv a st) = st'" using Next by simp
    ultimately show ?thesis using attempt_body_events [of b sv a st] by auto
  next
    case (Except st')
    have es: "end_state (attempt_body sv a st) = st'" using Except by simp
    show ?thesis
    proof (cases "a < mr - 1")
      case True
      with Except Cons.prems
      have "DeepAnalysis b \<in> set (events (snd (retry_loop sv mr attempts st')))" by simp
      then have "b = 0 \<or> DeepAnalysis b \<in> set (events st')" by (rule Cons.IH)
      then show ?thesis using es attempt_body_events [of b sv a st] by auto
    next
      case False
      with Except Cons.prems have "DeepAnalysis b \<in> set (events st')" by simp
      then show ?thesis using es attempt_body_events [of b sv a st] by auto
    qed
  qed
qed

text \<open>In every run the deep analysis is called at attempt 0 only.\<close>

lemma deep_analysis_only_first_attempt:
  assumes "DeepAnalysis a \<in> set (events (snd (generate_and_execute_with_retry sv mr w)))"
  shows "a = 0"
proof -
  from assms have "a = 0 \<or> DeepAnalysis a \<in> set (events (initial_state w))"
    unfolding generate_and_execute_with_retry_def by (rule retry_loop_events)
  then show ?thesis by (simp add: initial_state_def)
qed

text \<open>
  The path of the deep analysis when the two displays of an error return. Attempt 0 fails
  and the deep analysis returns a candidate: if the candidate executes successfully the
  function returns the candidate, its result and \<open>retry_count = 0\<close>; if it fails the loop
  goes on with the attempts \<open>1, \<dots>, max_retries - 1\<close>, all of them still available, with
  the feedback, code and result of attempt 0 (the candidate's are not recorded).
\<close>

lemma deep_analysis_fallback:
  assumes mr: "0 < mr"
    and gen: "generate_code sv w None = (Some generated, w1)"
    and exe: "executor_execute sv w1 generated = (result, w2)"
    and res: "result ''success'' = Some v" and failed: "\<not> truthy (Some v)"
    and shown: "\<not> show_error sv (dict_get result ''error'' (PyStr (str ''Unknown error'')))
                     (dict_get result ''error_type'' (PyStr (str ''Error'')))"
    and fb: "fb = \<lparr>fb_code = generated,
                    fb_error_type = dict_get result ''error_type'' (PyStr (str ''Unknown'')),
                    fb_error_message = dict_get result ''error'' (PyStr (str ''Unknown error'')),
                    fb_traceback = dict_get result ''traceback'' (PyStr [])\<rparr>"
    and deep: "analyze_error_with_thinking sv w2 fb = (Some thinking, w3)"
    and cand: "th_success thinking" "th_code thinking = Some candidate" "candidate \<noteq> []"
    and cexe: "executor_execute sv w3 candidate = (cres, w4)"
    and cres: "cres ''success'' = Some cv"
    and cshown: "\<not> show_error sv (dict_get cres ''error'' (PyStr thinking_failed))
                      (dict_get cres ''error_type'' (PyStr (str ''Error'')))"
  shows "generate_and_execute_with_retry sv mr w =
          (if truthy (Some cv)
           then ((Some candidate, Some cres, 0),
                 \<lparr>error_feedback = Some fb, last_code = Some generated, last_result = Some result,
                  world = w4,
                  events = [Generate 0, Execute 0 generated, DeepAnalysis 0, DeepExecute 0 candidate]\<rparr>)
           else retry_loop sv mr [1..mr - 1]
                 \<lparr>error_feedback = Some fb, last_code = Some generated, last_result = Some result,
                  world = w4,
                  events = [Generate 0, Execute 0 generated, DeepAnalysis 0, DeepExecute 0 candidate]\<rparr>)"
proof -
  let ?st = "\<lparr>error_feedback = Some fb, last_code = Some generated, last_result = Some result,
              world = w4,
              events = [Generate 0, Execute 0 generated, DeepAnalysis 0, DeepExecute 0 candidate]\<rparr>"
  have up: "[0..mr - 1] = 0 # [1..mr - 1]" using mr by (simp add: upto_rec1)
  have body: "attempt_body sv 0 (initial_state w)
      = (if truthy (Some cv) then Return (Some candidate, Some cres, 0) ?st else Next ?st)"
    using gen exe res failed shown fb [symmetric] deep cand cexe cres cshown
    by (simp add: attempt_body_def deep_analysis_def initial_state_def Let_def)
  show ?thesis
    unfolding generate_and_execute_with_retry_def up by (simp add: body)
qed

lemma demo_run_good: "demo_run good_code ''success'' = Some (PyBool True)"
  by (simp add: demo_run_def good_code_def)

lemma demo_run_bad: "demo_run bad_code ''success'' = Some (PyBool False)"
  by (simp add: demo_run_def bad_code_def str_def)

lemma bad_feedback_eq:
  "bad_feedback = \<lparr>fb_code = bad_code,
      fb_error_type = dict_get (demo_run bad_code) ''error_type'' (PyStr (str ''Unknown'')),
      fb_error_message = dict_get (demo_run bad_code) ''error'' (PyStr (str ''Unknown error'')),
      fb_traceback = dict_get (demo_run bad_code) ''traceback'' (PyStr [])\<rparr>"
  by (simp add: bad_feedback_def dict_get_def demo_run_def bad_code_def str_def)

lemma show_error_scripted: "\<not> show_error (scripted script run thinking) error error_type"
  by (simp add: show_error_def scripted_def)

text \<open>
  Two such runs with \<open>max_retries = 2\<close>: a candidate that succeeds, and a candidate that
  fails and is followed by the ordinary attempt 1.
\<close>

lemma deep_analysis_fallback_runs:
  "fst (generate_and_execute_with_retry
          (scripted [Some bad_code, Some bad_code] demo_run (thinking_with good_code)) 2 0)
       = (Some good_code, Some (demo_run good_code), 0)
   \<and> generate_and_execute_with_retry
        (scripted [Some bad_code, Some bad_code] demo_run (thinking_with bad_code)) 2 0
       = ((Some bad_code, Some (demo_run bad_code), 2),
          \<lparr>error_feedback = Some bad_feedback, last_code = Some bad_code,
           last_result = Some (demo_run bad_code), world = 2,
           events = [Generate 0, Execute 0 bad_code, DeepAnalysis 0, DeepExecute 0 bad_code,
                     Generate 1, Execute 1 bad_code]\<rparr>)"
proof -
  let ?A = "scripted [Some bad_code, Some bad_code] demo_run (thinking_with good_code)"
  let ?B = "scripted [Some bad_code, Some bad_code] demo_run (thinking_with bad_code)"
  have mr: "(0::int) < 2" by simp
  have genA: "generate_code ?A 0 None = (Some bad_code, Suc 0)" by (simp add: scripted_def)
  have genB: "generate_code ?B 0 None = (Some bad_code, Suc 0)" by (simp add: scripted_def)
  have exeA: "executor_execute ?A (Suc 0) bad_code = (demo_run bad_code, Suc 0)"
    by (simp add: scripted_def)
  have exeB: "executor_execute ?B (Suc 0) bad_code = (demo_run bad_code, Suc 0)"
    by (simp add: scripted_def)
  have failed: "\<not> truthy (Some (PyBool False))" by simp
  have deepA: "analyze_error_with_thinking ?A (Suc 0) bad_feedback
      = (Some \<lparr>th_success = True, th_code = Some good_code\<rparr>, Suc 0)"
    by (simp add: scripted_def thinking_with_def)
  have deepB: "analyze_error_with_thinking ?B (Suc 0) bad_feedback
      = (Some \<lparr>th_success = True, th_code = Some bad_code\<rparr>, Suc 0)"
    by (simp add: scripted_def thinking_with_def)
  have k1: "th_success \<lparr>th_success = True, th_code = Some good_code\<rparr>"
    and k2: "th_code \<lparr>th_success = True, th_code = Some good_code\<rparr> = Some good_code"
    and k3: "good_code \<noteq> []"
    by (simp_all add: good_code_def str_def)
  have d1: "th_success \<lparr>th_success = True, th_code = Some bad_code\<rparr>"
    and d2: "th_code \<lparr>th_success = True, th_code = Some bad_code\<rparr> = Some bad_code"
    and d3: "bad_code \<noteq> []"
    by (simp_all add: bad_code_def str_def)
  have cexeA: "executor_execute ?A (Suc 0) good_code = (demo_run good_code, Suc 0)"
    by (simp add: scripted_def)
  note A = deep_analysis_fallback [OF mr genA exeA demo_run_bad failed show_error_scripted
      bad_feedback_eq deepA k1 k2 k3 cexeA demo_run_good show_error_scripted]
  note B = deep_analysis_fallback [OF mr genB exeB demo_run_bad failed show_error_scripted
      bad_feedback_eq deepB d1 d2 d3 exeB demo_run_bad show_error_scripted]
  from A have rA: "fst (generate_and_execute_with_retry ?A 2 0)
       = (Some good_code, Some (demo_run good_code), 0)"
    by simp
  have up: "[1..(2::int) - 1] = [1]" by (simp add: upto_rec1)
  have body1: "attempt_body ?B 1
       \<lparr>error_feedback = Some bad_feedback, last_code = Some bad_code,
        last_result = Some (demo_run bad_code), world = Suc 0,
        events = [Generate 0, Execute 0 bad_code, DeepAnalysis 0, DeepExecute 0 bad_code]\<rparr>
     = Next \<lparr>error_feedback = Some bad_feedback, last_code = Some bad_code,
        last_result = Some (demo_run bad_code), world = Suc (Suc 0),
        events = [Generate 0, Execute 0 bad_code, DeepAnalysis 0, DeepExecute 0 bad_code,
                  Generate 1, Execute 1 bad_code]\<rparr>"
    using demo_run_bad bad_feedback_eq [symmetric] show_error_scripted
    by (simp add: attempt_body_def scripted_def show_error_def)
  from B have rB: "generate_and_execute_with_retry ?B 2 0
       = ((Some bad_code, Some (demo_run bad_code), 2),
          \<lparr>error_feedback = Some bad_feedback, last_code = Some bad_code,
           last_result = Some (demo_run bad_code), world = 2,
           events = [Generate 0, Execute 0 bad_code, DeepAnalysis 0, DeepExecute 0 bad_code,
                     Generate 1, Execute 1 bad_code]\<rparr>)"
    by (simp add: up body1)
  show ?thesis using rA rB by simp
qed







end
